theory Spec2Isabelle
  imports Main "HOL-Library.Word"
begin

section \<open>Python values used by the renderer\<close>

text \<open>
  A Python \<open>str\<close> is a sequence of Unicode code points: \<open>len\<close> and slicing count code
  points. A string is therefore a list of code points; \<open>lit\<close> turns an ASCII literal of
  the source into such a list.
\<close>

type_synonym pystr = "nat list"

definition lit :: "string \<Rightarrow> pystr" where
  "lit s = map of_char s"

text \<open>\<open>str(n)\<close> for an integer: decimal digits, with a minus sign when negative.\<close>

fun digits :: "nat \<Rightarrow> pystr" where
  "digits n = (if n < 10 then [48 + n] else digits (n div 10) @ [48 + n mod 10])"

declare digits.simps [simp del]

definition str_int :: "int \<Rightarrow> pystr" where
  "str_int i = (if i < 0 then 45 # digits (nat (- i)) else digits (nat i))"

text \<open>\<open>range(start, stop, -1)\<close>: start, start - 1, ..., stop + 1.\<close>

fun range_down :: "nat \<Rightarrow> nat \<Rightarrow> nat list" where
  "range_down 0 stop = []"
| "range_down (Suc n) stop = (if stop < Suc n then Suc n # range_down n stop else [])"

section \<open>Fonts and text metrics\<close>

text \<open>The keys of \<open>Renderer.fonts\<close>.\<close>

datatype font_key =
    header_title | header_subtitle | race_name | circuit_name | circuit_location
  | schedule_title | schedule_row | schedule_row_bold | results_title | results_year
  | results_row | footer | circuit_stats | circuit_stats_value | icon | icon_small

text \<open>
  \<open>draw.textbbox((0, 0), text, font=font)\<close> returns (left, top, right, bottom). The
  metrics come from the font files through Pillow and FreeType; they are a parameter.
\<close>

type_synonym bbox = "int \<times> int \<times> int \<times> int"

fun bbox0 :: "bbox \<Rightarrow> int" where "bbox0 (l, t, r, b) = l"
fun bbox1 :: "bbox \<Rightarrow> int" where "bbox1 (l, t, r, b) = t"
fun bbox2 :: "bbox \<Rightarrow> int" where "bbox2 (l, t, r, b) = r"
fun bbox3 :: "bbox \<Rightarrow> int" where "bbox3 (l, t, r, b) = b"

type_synonym metrics = "font_key \<Rightarrow> pystr \<Rightarrow> bbox"

section \<open>Case mapping, dates and images\<close>

text \<open>
  \<open>str.lower\<close> and \<open>str.upper\<close>: on ASCII strings they shift the letters A-Z and a-z; on
  other strings they follow the interpreter's Unicode tables, which are a parameter.
\<close>

definition is_ascii :: "pystr \<Rightarrow> bool" where
  "is_ascii s = list_all (\<lambda>c. c < 128) s"

definition ascii_lower :: "pystr \<Rightarrow> pystr" where
  "ascii_lower s = map (\<lambda>c. if 65 \<le> c \<and> c \<le> 90 then c + 32 else c) s"

definition ascii_upper :: "pystr \<Rightarrow> pystr" where
  "ascii_upper s = map (\<lambda>c. if 97 \<le> c \<and> c \<le> 122 then c - 32 else c) s"

text \<open>
  A \<open>datetime\<close>: its position on its own time line in microseconds (the instant for an
  aware value, the wall clock for a naive one) and its \<open>tzinfo\<close>, if any.
\<close>

record datetime =
  micros :: int
  tzinfo :: "int option"

text \<open>Images as Pillow holds them: mode, size, and where the pixels come from.\<close>

datatype image_mode = Mode1 | ModeL | ModeOther

datatype resample = LANCZOS | NEAREST

datatype picture =
    FromFile pystr
  | Thumbnail picture int int resample
  | Convert picture image_mode
  | Point picture int
  | Crop picture bbox
  | Resize picture int int resample

record image =
  im_mode :: image_mode
  im_width :: int
  im_height :: int
  im_picture :: picture

datatype crop_box = CropFailed | NoContent | Content bbox

section \<open>The canvas\<close>

text \<open>
  The drawing surface is the image created by \<open>Image.new("1", (width, height), 1)\<close>
  together with the drawing calls made on it, in order. A fill or outline is 0 (black)
  or 1 (white).
\<close>

datatype draw_op =
    Rectangle int int int int "int option" "int option" int
  | Line int int int int int int
  | Text int int pystr int font_key
  | RoundedRectangle int int int int int "int option" int
  | Paste image int int

record canvas =
  cv_mode :: image_mode
  cv_width :: int
  cv_height :: int
  cv_background :: int
  ops :: "draw_op list"

text \<open>
  An entry of \<open>CIRCUITS_DATA\<close> (JSON): each value is absent, a string or an integer. A
  value is shown with \<open>str\<close>; it counts as false when absent, empty or zero.
\<close>

datatype int_or_str = IntVal int | StrVal pystr

fun py_str :: "int_or_str \<Rightarrow> pystr" where
  "py_str (IntVal n) = str_int n"
| "py_str (StrVal s) = s"

text \<open>\<open>f"{v}"\<close> for a value of the table: \<open>str(None)\<close> is "None".\<close>

fun shown :: "int_or_str option \<Rightarrow> pystr" where
  "shown None = lit ''None''"
| "shown (Some v) = py_str v"

fun truthy :: "int_or_str option \<Rightarrow> bool" where
  "truthy None = False"
| "truthy (Some (IntVal n)) = (n \<noteq> 0)"
| "truthy (Some (StrVal s)) = (s \<noteq> [])"

record circuit_facts =
  circuit_length :: "int_or_str option"
  number_of_laps :: "int_or_str option"
  race_distance :: "int_or_str option"
  fastest_lap_time :: "int_or_str option"
  fastest_lap_driver :: "pystr option"
  fastest_lap_year :: "int_or_str option"
  first_grand_prix :: "int_or_str option"

section \<open>The outside world\<close>

text \<open>
  What the renderer reads from outside its own code: font metrics, the Unicode case
  tables, the standard library's date parsing and formatting, the clock
  (\<open>datetime.now(tz)\<close> and \<open>datetime.now()\<close>, on the time line of an aware and of a naive
  value), the asset directories (\<open>Path.exists\<close>, \<open>Path.glob\<close>, \<open>Image.open\<close>, which is
  \<open>None\<close> when it raises), and what Pillow and floating-point arithmetic compute from
  pixels and sizes: the size \<open>thumbnail\<close> gives an image in a box, the bounding box of
  the dark content of a track image, \<open>(int(w * r), int(h * r))\<close> for
  \<open>r = min(aw / w, ah / h)\<close> (\<open>fit_size aw ah w h\<close>) and \<open>int(h * (m / w))\<close>
  (\<open>scale_height h m w\<close>), the table \<open>CIRCUITS_DATA\<close> loaded from the assets, and the
  pixels Pillow and FreeType produce from the drawing calls (\<open>rasterize c x y\<close> holds when
  the pixel in column \<open>x\<close> of row \<open>y\<close> is white). Pillow's drawing calls are taken to
  return normally; \<open>Image.resize\<close> raises for an empty target size, as modelled below.
\<close>

record world =
  textbbox :: metrics
  unicode_lower :: "pystr \<Rightarrow> pystr"
  unicode_upper :: "pystr \<Rightarrow> pystr"
  fromisoformat :: "pystr \<Rightarrow> datetime option"
  strftime :: "datetime \<Rightarrow> pystr \<Rightarrow> pystr"
  now_aware :: int
  now_naive :: int
  path_exists :: "pystr \<Rightarrow> bool"
  glob :: "pystr \<Rightarrow> pystr \<Rightarrow> pystr list"
  image_open :: "pystr \<Rightarrow> image option"
  thumbnail_size :: "int \<Rightarrow> int \<Rightarrow> int \<Rightarrow> int \<Rightarrow> int \<times> int"
  content_box :: "image \<Rightarrow> crop_box"
  fit_size :: "int \<Rightarrow> int \<Rightarrow> int \<Rightarrow> int \<Rightarrow> int \<times> int"
  scale_height :: "int \<Rightarrow> int \<Rightarrow> int \<Rightarrow> int"
  circuits_data :: "pystr \<Rightarrow> circuit_facts option"
  rasterize :: "canvas \<Rightarrow> nat \<Rightarrow> nat \<Rightarrow> bool"

definition py_lower :: "world \<Rightarrow> pystr \<Rightarrow> pystr" where
  "py_lower w s = (if is_ascii s then ascii_lower s else unicode_lower w s)"

definition py_upper :: "world \<Rightarrow> pystr \<Rightarrow> pystr" where
  "py_upper w s = (if is_ascii s then ascii_upper s else unicode_upper w s)"

text \<open>The translator: \<open>self.translator.get(key, default)\<close>.\<close>

type_synonym translator = "pystr \<rightharpoonup> pystr"

definition translator_get :: "translator \<Rightarrow> pystr \<Rightarrow> pystr \<Rightarrow> pystr" where
  "translator_get tr key dflt = (case tr key of Some v \<Rightarrow> v | None \<Rightarrow> dflt)"

definition tr_get :: "translator \<Rightarrow> string \<Rightarrow> string \<Rightarrow> pystr" where
  "tr_get tr key dflt = (case tr (lit key) of Some v \<Rightarrow> v | None \<Rightarrow> lit dflt)"

section \<open>Drawing on the canvas\<close>

definition emit :: "draw_op \<Rightarrow> canvas \<Rightarrow> canvas" where
  "emit op c = c\<lparr>ops := ops c @ [op]\<rparr>"

text \<open>\<open>config.DISPLAY_WIDTH\<close> and \<open>config.DISPLAY_HEIGHT\<close>.\<close>

definition DISPLAY_WIDTH :: int where "DISPLAY_WIDTH = 800"
definition DISPLAY_HEIGHT :: int where "DISPLAY_HEIGHT = 480"

definition new_image :: canvas where
  "new_image = \<lparr>cv_mode = Mode1, cv_width = DISPLAY_WIDTH, cv_height = DISPLAY_HEIGHT,
                 cv_background = 1, ops = []\<rparr>"

text \<open>The entries of \<open>Renderer.layout\<close> that the modelled sections read.\<close>

definition header_height :: int where "header_height = 90"
definition header_split_x :: int where "header_split_x = 230"
definition left_column_width :: int where "left_column_width = 500"
definition right_column_x :: int where "right_column_x = 510"
definition schedule_title_y :: int where "schedule_title_y = 100"
definition schedule_start_y :: int where "schedule_start_y = 140"
definition schedule_date_x :: int where "schedule_date_x = 510"
definition schedule_day_x :: int where "schedule_day_x = 575"
definition schedule_time_x :: int where "schedule_time_x = 620"
definition schedule_name_x :: int where "schedule_name_x = 680"
definition circuit_stats_row_height :: int where "circuit_stats_row_height = 18"
definition schedule_row_height :: int where "schedule_row_height = 28"
definition results_y_start :: int where "results_y_start = 385"
definition results_col1_x :: int where "results_col1_x = 109"
definition results_col2_x :: int where "results_col2_x = 455"
definition results_time_offset :: int where "results_time_offset = 260"
definition results_row_height :: int where "results_row_height = 20"
definition results_data_y_offset :: int where "results_data_y_offset = 4"
definition separator_width :: int where "separator_width = 2"
definition padding :: int where "padding = 15"

text \<open>\<open>TEXT_BASELINE_REF\<close>: A-acute, Z-caron, Y-acute, g, y.\<close>

definition TEXT_BASELINE_REF :: pystr where
  "TEXT_BASELINE_REF = [0xC1, 0x17D, 0xDD, 0x67, 0x79]"

section \<open>Text fitting: \<open>Renderer._fit_text\<close>\<close>

text \<open>The f-string \<open>f"{pos}. {driver} ({team})"\<close>.\<close>

definition composite :: "int \<Rightarrow> pystr \<Rightarrow> pystr \<Rightarrow> pystr" where
  "composite pos driver team =
     str_int pos @ lit ''. '' @ driver @ lit '' ('' @ team @ lit '')''"

definition get_width :: "world \<Rightarrow> font_key \<Rightarrow> pystr \<Rightarrow> int" where
  "get_width w font t = bbox2 (textbbox w font t)"

text \<open>The first loop of \<open>_fit_text\<close>, over \<open>range(len(team), 2, -1)\<close>.\<close>

fun truncate_team ::
  "world \<Rightarrow> font_key \<Rightarrow> int \<Rightarrow> int \<Rightarrow> pystr \<Rightarrow> pystr \<Rightarrow> nat list \<Rightarrow> pystr option" where
  "truncate_team w font max_width pos driver team [] = None"
| "truncate_team w font max_width pos driver team (i # rest) =
     (let short_team = take i team @ lit ''..'';
          text = composite pos driver short_team
      in if get_width w font text \<le> max_width then Some text
         else truncate_team w font max_width pos driver team rest)"

text \<open>The second loop, over \<open>range(len(driver), 2, -1)\<close>, with the minimal team name.\<close>

fun truncate_driver ::
  "world \<Rightarrow> font_key \<Rightarrow> int \<Rightarrow> int \<Rightarrow> pystr \<Rightarrow> pystr \<Rightarrow> nat list \<Rightarrow> pystr option" where
  "truncate_driver w font max_width pos driver short_team [] = None"
| "truncate_driver w font max_width pos driver short_team (i # rest) =
     (let short_driver = take i driver @ lit ''.'';
          text = composite pos short_driver short_team
      in if get_width w font text \<le> max_width then Some text
         else truncate_driver w font max_width pos driver short_team rest)"

definition fit_text ::
  "world \<Rightarrow> font_key \<Rightarrow> int \<Rightarrow> int \<Rightarrow> pystr \<Rightarrow> pystr \<Rightarrow> pystr" where
  "fit_text w font max_width pos driver team =
     (let full = composite pos driver team
      in if get_width w font full \<le> max_width then full
         else case truncate_team w font max_width pos driver team
                     (range_down (length team) 2) of
                Some text \<Rightarrow> text
              | None \<Rightarrow>
                  (let short_team = take 3 team @ lit ''..''
                   in case truncate_driver w font max_width pos driver short_team
                             (range_down (length driver) 2) of
                        Some text \<Rightarrow> text
                      | None \<Rightarrow>
                          composite pos (take 5 driver @ lit ''..'') (take 3 team @ lit ''..'')))"

text \<open>
  The staged policy in the specification's words: the candidates in their order of
  precedence (the full composite; the team name cut to its full length, then one
  character less, down to 3 characters, each with the marker \<open>..\<close>; then, with the team
  at 3 characters and \<open>..\<close>, the driver name cut from its full length down to 3
  characters with the marker \<open>.\<close>), the first candidate that fits, and the fixed fallback
  when none does.
\<close>

definition team_forms :: "int \<Rightarrow> pystr \<Rightarrow> pystr \<Rightarrow> pystr list" where
  "team_forms pos driver team =
     map (\<lambda>i. composite pos driver (take i team @ lit ''..'')) (rev [3..<Suc (length team)])"

definition driver_forms :: "int \<Rightarrow> pystr \<Rightarrow> pystr \<Rightarrow> pystr list" where
  "driver_forms pos driver team =
     map (\<lambda>i. composite pos (take i driver @ lit ''.'') (take 3 team @ lit ''..''))
       (rev [3..<Suc (length driver)])"

definition fallback_form :: "int \<Rightarrow> pystr \<Rightarrow> pystr \<Rightarrow> pystr" where
  "fallback_form pos driver team =
     composite pos (take 5 driver @ lit ''..'') (take 3 team @ lit ''..'')"

definition staged_fit :: "(pystr \<Rightarrow> bool) \<Rightarrow> int \<Rightarrow> pystr \<Rightarrow> pystr \<Rightarrow> pystr" where
  "staged_fit fits pos driver team =
     (case find fits
             (composite pos driver team # team_forms pos driver team @ driver_forms pos driver team) of
        Some text \<Rightarrow> text
      | None \<Rightarrow> fallback_form pos driver team)"

section \<open>The data model (\<open>app/models.py\<close> and the race dictionary)\<close>

record driver_info =
  driver_code :: pystr
  given_name :: pystr
  family_name :: pystr

definition display_name :: "driver_info \<Rightarrow> pystr" where
  "display_name d = family_name d"

record constructor_info =
  constructor_name :: pystr

record race_result_entry =
  r_position :: int
  r_driver :: driver_info
  r_constructor :: constructor_info
  r_time :: "pystr option"

record qualifying_result_entry =
  q_position :: int
  q_driver :: driver_info
  q_constructor :: constructor_info
  q3_time :: "pystr option"

record historical_data =
  season :: "int option"
  is_new_track :: bool
  race_results :: "race_result_entry list"
  qualifying_results :: "qualifying_result_entry list"

text \<open>
  A results column receives a plain Python list; its elements are entries of either
  class, and reading an attribute the class does not have raises \<open>AttributeError\<close>.
\<close>

datatype result_item = QualifyingItem qualifying_result_entry | RaceItem race_result_entry

datatype error = ValueError | ZeroDivisionError | IndexError | AttributeError

fun item_position :: "result_item \<Rightarrow> int" where
  "item_position (QualifyingItem q) = q_position q"
| "item_position (RaceItem r) = r_position r"

fun item_driver :: "result_item \<Rightarrow> driver_info" where
  "item_driver (QualifyingItem q) = q_driver q"
| "item_driver (RaceItem r) = r_driver r"

fun item_constructor :: "result_item \<Rightarrow> constructor_info" where
  "item_constructor (QualifyingItem q) = q_constructor q"
| "item_constructor (RaceItem r) = r_constructor r"

fun item_q3_time :: "result_item \<Rightarrow> error + pystr option" where
  "item_q3_time (QualifyingItem q) = Inr (q3_time q)"
| "item_q3_time (RaceItem r) = Inl AttributeError"

fun item_time :: "result_item \<Rightarrow> error + pystr option" where
  "item_time (RaceItem r) = Inr (r_time r)"
| "item_time (QualifyingItem q) = Inl AttributeError"

text \<open>\<open>x or ""\<close> for an optional string.\<close>

fun or_empty :: "pystr option \<Rightarrow> pystr" where
  "or_empty None = []"
| "or_empty (Some s) = s"

text \<open>
  The race dictionary: a key that is absent is \<open>None\<close>. A schedule entry's
  \<open>datetime\<close> is absent (or \<open>None\<close>), an ISO string, or a \<open>datetime\<close> object.
\<close>

datatype dt_value = DtNone | DtStr pystr | DtObj datetime

record schedule_event =
  ev_name :: "pystr option"
  ev_datetime :: dt_value
  ev_display_time :: "pystr option"

record circuit =
  circuitId :: "pystr option"
  circuit_title :: "pystr option"
  location :: "pystr option"
  country :: "pystr option"

record race_data =
  rd_race_name :: "pystr option"
  rd_season :: "pystr option"
  rd_circuit :: "circuit option"
  rd_schedule :: "schedule_event list option"

text \<open>\<open>race_data.get("circuit", {}).get("country", "")\<close>.\<close>

definition circuit_country :: "race_data \<Rightarrow> pystr" where
  "circuit_country rd = (case rd_circuit rd of None \<Rightarrow> [] | Some c \<Rightarrow> or_empty (country c))"

section \<open>Historical results: \<open>Renderer._draw_results_section\<close> and its helpers\<close>

text \<open>\<open>COUNTRY_MAP\<close>, in the order of the source.\<close>

definition COUNTRY_MAP :: "(pystr \<times> pystr) list" where
  "COUNTRY_MAP = map (\<lambda>(k, v). (lit k, lit v))
     [(''Australia'', ''au''), (''Austria'', ''at''), (''Azerbaijan'', ''az''),
      (''Bahrain'', ''bh''), (''Belgium'', ''be''), (''Brazil'', ''br''),
      (''Canada'', ''ca''), (''China'', ''cn''), (''France'', ''fr''),
      (''Germany'', ''de''), (''Hungary'', ''hu''), (''Italy'', ''it''),
      (''Japan'', ''jp''), (''Mexico'', ''mx''), (''Monaco'', ''mc''),
      (''Netherlands'', ''nl''), (''Portugal'', ''pt''), (''Qatar'', ''qa''),
      (''Russia'', ''ru''), (''Saudi Arabia'', ''sa''), (''Singapore'', ''sg''),
      (''Spain'', ''es''), (''Turkey'', ''tr''), (''UAE'', ''ae''),
      (''United Arab Emirates'', ''ae''), (''UK'', ''gb''), (''United Kingdom'', ''gb''),
      (''USA'', ''us''), (''United States'', ''us'')]"

text \<open>\<open>_draw_new_track_message\<close>.\<close>

definition draw_new_track_message :: "world \<Rightarrow> translator \<Rightarrow> canvas \<Rightarrow> int \<Rightarrow> canvas" where
  "draw_new_track_message w tr c y_start =
     (let message = tr_get tr ''new_track'' ''NEW TRACK'';
          bbox = textbbox w schedule_title message;
          text_width = bbox2 bbox - bbox0 bbox;
          x = (DISPLAY_WIDTH - text_width) div 2;
          y = y_start + 30
      in emit (Text x y message 0 schedule_title) c)"

text \<open>
  The ISO code of \<open>_draw_results_header\<close>: the table entry lowercased; when that is
  empty, the three spelled-out names, and else the first two characters lowercased.
\<close>

definition iso_code_of :: "world \<Rightarrow> pystr \<Rightarrow> pystr" where
  "iso_code_of w country_name =
     (let iso_code = py_lower w (case map_of COUNTRY_MAP country_name of
                                   Some v \<Rightarrow> v | None \<Rightarrow> [])
      in if iso_code = [] then
           (if country_name = lit ''UAE'' then lit ''ae''
            else if country_name = lit ''UK'' then lit ''gb''
            else if country_name = lit ''USA'' then lit ''us''
            else py_lower w (take 2 country_name))
         else iso_code)"

text \<open>\<open>FLAGS_DIR / f"{iso_code}.bmp"\<close>, relative to the assets directory.\<close>

definition flag_path :: "pystr \<Rightarrow> pystr" where
  "flag_path iso_code = lit ''flags_processed/'' @ iso_code @ lit ''.bmp''"

text \<open>
  The flag image, if any: the file must exist and open (a failure of \<open>Image.open\<close> is
  caught and logged).
\<close>

definition load_flag :: "world \<Rightarrow> pystr \<Rightarrow> image option" where
  "load_flag w iso_code =
     (if iso_code \<noteq> [] then
        (let local_flag_path = flag_path iso_code
         in if path_exists w local_flag_path then image_open w local_flag_path else None)
      else None)"

text \<open>
  \<open>img.resize((width, height), resample)\<close>. Pillow raises \<open>ValueError\<close> ("height and
  width must be > 0") when the target width or height is below 1.
\<close>

definition resize :: "image \<Rightarrow> int \<Rightarrow> int \<Rightarrow> resample \<Rightarrow> error + image" where
  "resize img width height rs =
     (if width < 1 \<or> height < 1 then Inl ValueError
      else Inr (img\<lparr>im_width := width, im_height := height,
                    im_picture := Resize (im_picture img) width height rs\<rparr>))"

text \<open>
  \<open>int(header_area_w * 0.8)\<close> with \<open>header_area_w = 109\<close> is 87. The scaled height
  \<open>int(flag_img.height * (max_flag_width / flag_img.width))\<close> is floating-point
  arithmetic: \<open>scale_height w height max_flag_width width\<close>.
\<close>

definition max_flag_width :: int where "max_flag_width = 87"

text \<open>The season argument of \<open>_draw_results_header\<close> is an integer or a string.\<close>

definition draw_results_header ::
  "world \<Rightarrow> canvas \<Rightarrow> int \<Rightarrow> int_or_str \<Rightarrow> pystr \<Rightarrow> error + canvas \<times> int" where
  "draw_results_header w c y_start season_arg country_name =
     (let year_text = py_str season_arg;
          bbox = textbbox w results_year year_text;
          text_width = bbox2 bbox - bbox0 bbox;
          text_h = bbox3 bbox - bbox1 bbox;
          footer_y_start = y_start;
          footer_height = DISPLAY_HEIGHT - footer_y_start;
          iso_code = iso_code_of w country_name;
          flag_img = load_flag w iso_code;
          header_area_w = results_col1_x
      in case (case flag_img of
                 None \<Rightarrow> Inr (None, 0)
               | Some img \<Rightarrow>
                   if im_width img > max_flag_width then
                     (let flag_h = scale_height w (im_height img) max_flag_width (im_width img)
                      in case resize img max_flag_width flag_h NEAREST of
                           Inl e \<Rightarrow> Inl e
                         | Inr resized \<Rightarrow> Inr (Some resized, flag_h))
                   else Inr (Some img, im_height img)) of
           Inl e \<Rightarrow> Inl e
         | Inr (flag_img, flag_h) \<Rightarrow>
             (let standard_gap = 3;
                  total_block_h_stable = text_h + (if flag_h > 0 then standard_gap else 0) + flag_h;
                  y_offset_stable = (footer_height - total_block_h_stable) div 2;
                  visual_top = footer_y_start + y_offset_stable;
                  year_x = (header_area_w - text_width) div 2;
                  text_y = visual_top - bbox1 bbox;
                  c = emit (Text year_x text_y year_text 0 results_year) c;
                  c = (case flag_img of
                         None \<Rightarrow> c
                       | Some img \<Rightarrow>
                           (let x = (header_area_w - im_width img) div 2;
                                y = text_y + bbox3 bbox + 6;
                                c = emit (Paste img x y) c
                            in emit (Rectangle (x - 1) (y - 1) (x + im_width img) (y + im_height img)
                                       None (Some 0) 1) c))
              in Inr (c, visual_top)))"

text \<open>The loop of \<open>_draw_results_column\<close> over \<open>enumerate(results[:3])\<close>.\<close>

fun draw_result_rows ::
  "world \<Rightarrow> canvas \<Rightarrow> int \<Rightarrow> int \<Rightarrow> int \<Rightarrow> bool \<Rightarrow> nat \<Rightarrow> result_item list \<Rightarrow> error + canvas" where
  "draw_result_rows w c x_start time_x y_rows_start is_qualifying i [] = Inr c"
| "draw_result_rows w c x_start time_x y_rows_start is_qualifying i (entry # rest) =
     (let y = y_rows_start + int i * results_row_height;
          pos = item_position entry;
          driver_name = display_name (item_driver entry);
          team = constructor_name (item_constructor entry)
      in case (if is_qualifying then item_q3_time entry else item_time entry) of
           Inl e \<Rightarrow> Inl e
         | Inr t \<Rightarrow>
             (let time_str = or_empty t;
                  max_width = results_time_offset - 10;
                  text = fit_text w results_row max_width pos driver_name team;
                  c = emit (Text x_start y text 0 results_row) c;
                  c = (if time_str \<noteq> [] then emit (Text time_x y time_str 0 results_row) c
                       else c)
              in draw_result_rows w c x_start time_x y_rows_start is_qualifying (Suc i) rest))"

definition draw_results_column ::
  "world \<Rightarrow> canvas \<Rightarrow> int \<Rightarrow> int \<Rightarrow> pystr \<Rightarrow> result_item list \<Rightarrow> bool \<Rightarrow> error + canvas" where
  "draw_results_column w c x_start visual_top title results is_qualifying =
     (let ref_bbox = textbbox w results_title TEXT_BASELINE_REF;
          header_y_anchor = visual_top - bbox1 ref_bbox;
          c = emit (Text x_start header_y_anchor title 0 results_title) c;
          time_x = x_start + results_time_offset;
          ref_bbox = textbbox w results_title (lit ''Hg'');
          header_visual_bottom = header_y_anchor + bbox3 ref_bbox;
          row_bbox = textbbox w results_row (lit ''1'');
          y_rows_start = header_visual_bottom + results_data_y_offset - bbox1 row_bbox
      in draw_result_rows w c x_start time_x y_rows_start is_qualifying 0 (take 3 results))"

definition draw_results_section ::
  "world \<Rightarrow> translator \<Rightarrow> canvas \<Rightarrow> race_data \<Rightarrow> historical_data option \<Rightarrow> error + canvas" where
  "draw_results_section w tr c rd hist =
     (let y_start = results_y_start;
          c = emit (Line 0 y_start DISPLAY_WIDTH y_start 0 separator_width) c
      in case hist of
           None \<Rightarrow> Inr (draw_new_track_message w tr c y_start)
         | Some h \<Rightarrow>
             if is_new_track h then Inr (draw_new_track_message w tr c y_start)
             else
               (let season_arg = (case season h of
                                    None \<Rightarrow> StrVal []
                                  | Some n \<Rightarrow> if n = 0 then StrVal [] else IntVal n);
                    country_name = circuit_country rd
                in case draw_results_header w c y_start season_arg country_name of
                     Inl e \<Rightarrow> Inl e
                   | Inr (c, visual_top) \<Rightarrow>
                       (case draw_results_column w c results_col1_x visual_top
                               (tr_get tr ''qualifying'' ''QUALIFYING'')
                               (map QualifyingItem (qualifying_results h)) True of
                          Inl e \<Rightarrow> Inl e
                        | Inr c \<Rightarrow>
                            draw_results_column w c results_col2_x visual_top
                              (tr_get tr ''race'' ''RACE'')
                              (map RaceItem (race_results h)) False)))"

section \<open>Schedule and countdown: \<open>Renderer._draw_schedule_section\<close> and its helpers\<close>

text \<open>
  \<open>_draw_schedule_row\<close>. An ISO string is parsed first, and \<open>datetime.fromisoformat\<close>
  raises \<open>ValueError\<close> on a string it cannot parse.
\<close>

definition draw_schedule_row ::
  "world \<Rightarrow> translator \<Rightarrow> canvas \<Rightarrow> int \<Rightarrow> schedule_event \<Rightarrow> error + canvas" where
  "draw_schedule_row w tr c y event =
     (let name = or_empty (ev_name event)
      in case (case ev_datetime event of
                 DtStr s \<Rightarrow> (case fromisoformat w s of
                               None \<Rightarrow> Inl ValueError
                             | Some d \<Rightarrow> Inr (Some d))
               | DtObj d \<Rightarrow> Inr (Some d)
               | DtNone \<Rightarrow> Inr None) of
           Inl e \<Rightarrow> Inl e
         | Inr dt \<Rightarrow>
             (let (date_str, day_str, time_str) =
                    (case dt of
                       Some d \<Rightarrow>
                         (let date_str = strftime w d (lit ''%d.%m.'');
                              day_key = lit ''day_'' @ py_lower w (strftime w d (lit ''%a''));
                              day_str = translator_get tr day_key (strftime w d (lit ''%a''));
                              time_str = strftime w d (lit ''%H:%M'')
                          in (date_str, day_str, time_str))
                     | None \<Rightarrow> ([], [], or_empty (ev_display_time event)));
                  translated_name = translator_get tr (lit ''session_'' @ py_lower w name) name;
                  c = emit (Text schedule_date_x y date_str 0 schedule_row) c;
                  c = emit (Text schedule_day_x y day_str 0 schedule_row) c;
                  c = emit (Text schedule_time_x y time_str 0 schedule_row) c
              in Inr (emit (Text schedule_name_x y translated_name 0 schedule_row_bold) c)))"

text \<open>The row loop of \<open>_draw_schedule_section\<close>, with its \<open>break\<close>.\<close>

fun draw_schedule_rows ::
  "world \<Rightarrow> translator \<Rightarrow> canvas \<Rightarrow> int \<Rightarrow> schedule_event list \<Rightarrow> error + canvas \<times> int" where
  "draw_schedule_rows w tr c row_y [] = Inr (c, row_y)"
| "draw_schedule_rows w tr c row_y (event # rest) =
     (case draw_schedule_row w tr c row_y event of
        Inl e \<Rightarrow> Inl e
      | Inr c \<Rightarrow>
          (let row_y = row_y + schedule_row_height
           in if row_y > results_y_start - 80 then Inr (c, row_y)
              else draw_schedule_rows w tr c row_y rest))"

text \<open>The search loop of \<open>_draw_countdown_box\<close>: the first event named "race" decides.\<close>

fun find_race_dt :: "world \<Rightarrow> schedule_event list \<Rightarrow> error + datetime option" where
  "find_race_dt w [] = Inr None"
| "find_race_dt w (event # rest) =
     (if py_lower w (or_empty (ev_name event)) = lit ''race'' then
        (case ev_datetime event of
           DtStr s \<Rightarrow> (case fromisoformat w s of
                         None \<Rightarrow> Inl ValueError
                       | Some d \<Rightarrow> Inr (Some d))
         | DtObj d \<Rightarrow> Inr (Some d)
         | DtNone \<Rightarrow> Inr None)
      else find_race_dt w rest)"

text \<open>
  \<open>delta = race_dt - now\<close> in microseconds; \<open>delta.days\<close> and \<open>delta.seconds\<close> are the
  floor quotient by a day and the seconds of the remainder.
\<close>

definition draw_countdown_box ::
  "world \<Rightarrow> translator \<Rightarrow> canvas \<Rightarrow> race_data \<Rightarrow> int \<Rightarrow> error + canvas \<times> int" where
  "draw_countdown_box w tr c rd schedule_bottom =
     (let schedule = (case rd_schedule rd of None \<Rightarrow> [] | Some evs \<Rightarrow> evs)
      in case find_race_dt w schedule of
           Inl e \<Rightarrow> Inl e
         | Inr None \<Rightarrow> Inr (c, schedule_bottom)
         | Inr (Some race_dt) \<Rightarrow>
             (let now = (if tzinfo race_dt \<noteq> None then now_aware w else now_naive w);
                  delta = micros race_dt - now
              in if delta \<le> 0 then Inr (c, schedule_bottom)
                 else
                   (let days = delta div 86400000000;
                        seconds = (delta mod 86400000000) div 1000000;
                        hours = seconds div 3600;
                        in_text = tr_get tr ''countdown_in'' ''IN'';
                        days_text = tr_get tr ''countdown_days'' ''days'';
                        hours_text = tr_get tr ''countdown_hours'' ''hours'';
                        countdown_str = in_text @ lit '' '' @ str_int days @ lit '' '' @ days_text
                                        @ lit '' '' @ str_int hours @ lit '' '' @ hours_text;
                        ref_bbox = textbbox w schedule_row_bold TEXT_BASELINE_REF;
                        text_height = bbox3 ref_bbox - bbox1 ref_bbox;
                        padding_y = 6;
                        box_height = text_height + 2 * padding_y;
                        x_left = right_column_x;
                        x_right = DISPLAY_WIDTH - 5;
                        stats_row_height = circuit_stats_row_height;
                        stats_top_y = results_y_start - 3 - (3 * stats_row_height);
                        available_height = stats_top_y - schedule_bottom;
                        y_top = schedule_bottom + (available_height - box_height) div 2;
                        y_bottom = y_top + box_height;
                        c = emit (Rectangle x_left y_top x_right y_bottom (Some 0) (Some 0) 1) c;
                        text_bbox = textbbox w schedule_row_bold countdown_str;
                        text_width = bbox2 text_bbox - bbox0 text_bbox;
                        text_x = x_left + (x_right - x_left - text_width) div 2;
                        text_y = y_top + padding_y - bbox1 ref_bbox;
                        c = emit (Text text_x text_y countdown_str 1 schedule_row_bold) c
                    in Inr (c, y_bottom))))"

definition draw_schedule_section ::
  "world \<Rightarrow> translator \<Rightarrow> canvas \<Rightarrow> race_data \<Rightarrow> error + canvas \<times> int" where
  "draw_schedule_section w tr c rd =
     (let x_start = right_column_x;
          y_start = schedule_title_y;
          schedule_title_text = tr_get tr ''weekend_schedule'' ''WEEKEND SCHEDULE'';
          c = emit (Text x_start y_start schedule_title_text 0 schedule_title) c;
          schedule = (case rd_schedule rd of None \<Rightarrow> [] | Some evs \<Rightarrow> evs);
          row_y = schedule_start_y
      in case draw_schedule_rows w tr c row_y schedule of
           Inl e \<Rightarrow> Inl e
         | Inr (c, row_y) \<Rightarrow> draw_countdown_box w tr c rd (row_y + 5))"

section \<open>Header: \<open>Renderer._draw_header\<close> and \<open>Renderer._draw_f1_logo\<close>\<close>

text \<open>Image methods; each returns the changed image.\<close>

definition thumbnail :: "world \<Rightarrow> image \<Rightarrow> int \<Rightarrow> int \<Rightarrow> resample \<Rightarrow> image" where
  "thumbnail w img target_w target_h rs =
     (let (tw, th) = thumbnail_size w (im_width img) (im_height img) target_w target_h
      in img\<lparr>im_width := tw, im_height := th,
              im_picture := Thumbnail (im_picture img) target_w target_h rs\<rparr>)"

definition convert :: "image \<Rightarrow> image_mode \<Rightarrow> image" where
  "convert img m = img\<lparr>im_mode := m, im_picture := Convert (im_picture img) m\<rparr>"

definition point_threshold :: "image \<Rightarrow> int \<Rightarrow> image" where
  "point_threshold img threshold = img\<lparr>im_picture := Point (im_picture img) threshold\<rparr>"

definition crop :: "image \<Rightarrow> bbox \<Rightarrow> image" where
  "crop img box = img\<lparr>im_width := bbox2 box - bbox0 box, im_height := bbox3 box - bbox1 box,
                        im_picture := Crop (im_picture img) box\<rparr>"

text \<open>
  \<open>_draw_f1_logo\<close>: nothing is drawn when the file is missing, and an exception while
  loading is caught and logged.
\<close>

definition draw_f1_logo :: "world \<Rightarrow> canvas \<Rightarrow> int \<Rightarrow> int \<Rightarrow> canvas" where
  "draw_f1_logo w c width height =
     (let logo_path = lit ''images/eInkF1logo.jpg''
      in if \<not> path_exists w logo_path then c
         else case image_open w logo_path of
                None \<Rightarrow> c
              | Some logo \<Rightarrow>
                  (let pad = 2;
                       target_w = width - (pad * 2);
                       target_h = height - (pad * 2);
                       logo = thumbnail w logo target_w target_h LANCZOS;
                       logo = convert logo ModeL;
                       threshold = 128;
                       logo = point_threshold logo threshold;
                       logo = convert logo Mode1;
                       x = (width - im_width logo) div 2;
                       y = (height - im_height logo) div 2
                   in emit (Paste logo x y) c))"

definition draw_header :: "world \<Rightarrow> canvas \<Rightarrow> race_data \<Rightarrow> canvas" where
  "draw_header w c rd =
     (let split_x = header_split_x;
          c = emit (Rectangle 0 0 split_x header_height (Some 1) None 1) c;
          c = emit (Line 0 (header_height - 1) split_x (header_height - 1) 0 2) c;
          c = emit (Rectangle (split_x + 1) 0 DISPLAY_WIDTH header_height (Some 0) None 1) c;
          c = draw_f1_logo w c split_x header_height;
          race_name_text = (case rd_race_name rd of None \<Rightarrow> lit ''Grand Prix'' | Some n \<Rightarrow> n);
          season_text = or_empty (rd_season rd);
          line1 = season_text @ lit '' FIA F1 World Championship'';
          line2 = py_upper w race_name_text;
          text_x = split_x + 15;
          total_text_height = 80;
          start_y = (header_height - total_text_height) div 2 - 5;
          c = emit (Text text_x start_y line1 1 header_title) c
      in emit (Text text_x (start_y + 40) line2 1 header_subtitle) c)"

section \<open>Track map: \<open>Renderer._draw_track_section\<close> and its helpers\<close>

text \<open>The two search loops of \<open>_load_track_image\<close>: the first file that opens.\<close>

fun open_first_match :: "world \<Rightarrow> pystr \<Rightarrow> pystr list \<Rightarrow> image option" where
  "open_first_match w dir [] = None"
| "open_first_match w dir (pattern # rest) =
     (case glob w dir pattern of
        [] \<Rightarrow> open_first_match w dir rest
      | m # ms \<Rightarrow> (case image_open w m of
                     Some img \<Rightarrow> Some img
                   | None \<Rightarrow> open_first_match w dir rest))"

text \<open>\<open>s.replace(" ", "_")\<close>.\<close>

definition replace_spaces :: "pystr \<Rightarrow> pystr" where
  "replace_spaces s = map (\<lambda>ch. if ch = 32 then 95 else ch) s"

definition load_track_image :: "world \<Rightarrow> race_data \<Rightarrow> image option" where
  "load_track_image w rd =
     (let circ = rd_circuit rd;
          circuit_id = (case circ of None \<Rightarrow> [] | Some ci \<Rightarrow> or_empty (circuitId ci))
      in if circuit_id = [] then None
         else
           (let star = lit ''*'';
                processed_patterns =
                  [star @ circuit_id @ lit ''*.bmp'', star @ py_lower w circuit_id @ lit ''*.bmp''];
                loc = replace_spaces
                        (py_lower w (case circ of None \<Rightarrow> [] | Some ci \<Rightarrow> or_empty (location ci)));
                processed_patterns =
                  (if loc \<noteq> [] then processed_patterns @ [star @ loc @ lit ''*.bmp'']
                   else processed_patterns)
            in case open_first_match w (lit ''tracks_processed'') processed_patterns of
                 Some img \<Rightarrow> Some img
               | None \<Rightarrow>
                   (let original_patterns =
                          [star @ circuit_id @ lit ''*.png'', star @ circuit_id @ lit ''*.jpg'',
                           star @ py_lower w circuit_id @ lit ''*.png'',
                           star @ py_lower w circuit_id @ lit ''*.jpg''];
                        original_patterns =
                          (if loc \<noteq> [] then
                             original_patterns @ [star @ loc @ lit ''*.png'', star @ loc @ lit ''*.jpg'']
                           else original_patterns)
                    in case open_first_match w (lit ''tracks'') original_patterns of
                         Some img \<Rightarrow> Some img
                       | None \<Rightarrow>
                           (case glob w (lit ''tracks_processed'') (lit ''*.bmp'') of
                              [] \<Rightarrow> None
                            | m # ms \<Rightarrow> image_open w m))))"

definition draw_track_placeholder :: "canvas \<Rightarrow> int \<Rightarrow> int \<Rightarrow> int \<Rightarrow> int \<Rightarrow> canvas" where
  "draw_track_placeholder c x y width height =
     emit (RoundedRectangle (x + 20) (y + 20) (x + width - 20) (y + height - 20) 20 (Some 0) 3) c"

text \<open>
  \<open>_draw_track_section\<close>. The ratio divides by the image's width and height: a zero there
  raises \<open>ZeroDivisionError\<close>; the resize raises \<open>ValueError\<close> for an empty new size.
  Neither call stands in a \<open>try\<close>.
\<close>

definition draw_track_section :: "world \<Rightarrow> canvas \<Rightarrow> race_data \<Rightarrow> error + canvas" where
  "draw_track_section w c rd =
     (let x_start = 0;
          circ = rd_circuit rd;
          circuit_name_text = (case circ of
                                 None \<Rightarrow> lit ''Circuit''
                               | Some ci \<Rightarrow> (case circuit_title ci of
                                              None \<Rightarrow> lit ''Circuit'' | Some n \<Rightarrow> n));
          country_text = py_upper w (case circ of None \<Rightarrow> [] | Some ci \<Rightarrow> or_empty (country ci));
          city = py_upper w (case circ of None \<Rightarrow> [] | Some ci \<Rightarrow> or_empty (location ci));
          results_line_y = results_y_start;
          label_text = (if city \<noteq> [] then
                          country_text @ lit '', '' @ city @ lit '' | '' @ circuit_name_text
                        else country_text @ lit '' | '' @ circuit_name_text);
          label_bbox = textbbox w circuit_name label_text;
          label_y = results_line_y - 3 - bbox3 label_bbox;
          text_visual_top = label_y + bbox1 label_bbox;
          side_margin = 3;
          track_top = 92;
          track_bottom = text_visual_top - side_margin;
          available_height = track_bottom - track_top;
          available_width = left_column_width - (side_margin * 2);
          label_x = padding
      in case (case load_track_image w rd of
                 Some track_image \<Rightarrow>
                   (let is_preprocessed = (im_mode track_image = Mode1);
                        track_image =
                          (if \<not> is_preprocessed then
                             (case content_box w track_image of
                                Content box \<Rightarrow> crop track_image box
                              | NoContent \<Rightarrow> track_image
                              | CropFailed \<Rightarrow> track_image)
                           else track_image);
                        img_w = im_width track_image;
                        img_h = im_height track_image
                    in if img_w = 0 \<or> img_h = 0 then Inl ZeroDivisionError
                       else
                         (let (new_w, new_h) = fit_size w available_width available_height img_w img_h
                          in case (if (new_w, new_h) \<noteq> (img_w, img_h) then
                                     resize track_image new_w new_h LANCZOS
                                   else Inr track_image) of
                               Inl e \<Rightarrow> Inl e
                             | Inr track_image \<Rightarrow>
                                 (let track_image =
                                        (if \<not> is_preprocessed then
                                           convert (point_threshold track_image 200) Mode1
                                         else track_image);
                                      paste_x = side_margin;
                                      paste_y = track_top
                                  in Inr (emit (Paste track_image paste_x paste_y) c))))
               | None \<Rightarrow>
                   Inr (draw_track_placeholder c (x_start + side_margin) track_top
                          available_width available_height)) of
           Inl e \<Rightarrow> Inl e
         | Inr c \<Rightarrow> Inr (emit (Text label_x label_y label_text 0 circuit_name) c))"

section \<open>Circuit statistics: \<open>Renderer._draw_circuit_stats\<close>\<close>

text \<open>
  \<open>str.split()\<close> splits at runs of white space (the code points for which \<open>str.isspace\<close>
  holds) and drops empty pieces.
\<close>

definition is_space :: "nat \<Rightarrow> bool" where
  "is_space ch = (ch \<in> set ([9, 10, 11, 12, 13, 28, 29, 30, 31, 32, 133, 160, 5760]
                              @ [8192..<8203] @ [8232, 8233, 8239, 8287, 12288]))"

fun split_words :: "pystr \<Rightarrow> pystr \<Rightarrow> pystr list" where
  "split_words cur [] = (if cur = [] then [] else [cur])"
| "split_words cur (ch # rest) =
     (if is_space ch then (if cur = [] then split_words [] rest else cur # split_words [] rest)
      else split_words (cur @ [ch]) rest)"

definition py_split :: "pystr \<Rightarrow> pystr list" where
  "py_split s = split_words [] s"

text \<open>\<open>CIRCUIT_ID_MAP.get(circuit_id, circuit_id)\<close>.\<close>

definition mapped_circuit_id :: "pystr \<Rightarrow> pystr" where
  "mapped_circuit_id circuit_id =
     (if circuit_id = lit ''vegas'' then lit ''las_vegas'' else circuit_id)"

text \<open>The icons: a ruler, a lightning bolt and a calendar.\<close>

definition icon_ruler :: pystr where "icon_ruler = [0x1F4CF]"
definition icon_bolt :: pystr where "icon_bolt = [0x26A1]"
definition icon_calendar :: pystr where "icon_calendar = [0x1F5D3]"

text \<open>
  The lines of the block. \<open>lap_driver.split()[-1]\<close> raises \<open>IndexError\<close> for a name of
  white space only.
\<close>

definition stats_lines :: "translator \<Rightarrow> circuit_facts \<Rightarrow> error + (pystr \<times> pystr) list" where
  "stats_lines tr cd =
     (let stats = [];
          stats =
            (if truthy (circuit_length cd) then
               (let line1 = shown (circuit_length cd);
                    line1 = (if truthy (number_of_laps cd) then
                               line1 @ lit '' | '' @ shown (number_of_laps cd) @ lit '' ''
                                 @ tr_get tr ''laps'' ''laps''
                             else line1);
                    line1 = (if truthy (race_distance cd) then
                               line1 @ lit '' | '' @ shown (race_distance cd)
                             else line1)
                in stats @ [(icon_ruler, line1)])
             else stats)
      in case (if truthy (fastest_lap_time cd) then
                 (let lap_text = shown (fastest_lap_time cd)
                  in if or_empty (fastest_lap_driver cd) \<noteq> [] then
                       (case py_split (or_empty (fastest_lap_driver cd)) of
                          [] \<Rightarrow> Inl IndexError
                        | p # ps \<Rightarrow>
                            (let last_name = last (p # ps);
                                 lap_text = lap_text @ lit '' ('' @ last_name;
                                 lap_text = (if truthy (fastest_lap_year cd) then
                                               lap_text @ lit '', '' @ shown (fastest_lap_year cd)
                                                 @ lit '')''
                                             else lap_text @ lit '')'')
                             in Inr (stats @ [(icon_bolt, lap_text)])))
                     else Inr (stats @ [(icon_bolt, lap_text)]))
               else Inr stats) of
           Inl e \<Rightarrow> Inl e
         | Inr stats \<Rightarrow>
             Inr (if truthy (first_grand_prix cd) then
                    stats @ [(icon_calendar,
                              tr_get tr ''first_gp'' ''First GP'' @ lit '': ''
                                @ shown (first_grand_prix cd))]
                  else stats))"

text \<open>The drawing loop over the lines.\<close>

fun draw_stats_rows ::
  "world \<Rightarrow> canvas \<Rightarrow> int \<Rightarrow> int \<Rightarrow> int \<Rightarrow> int \<Rightarrow> (pystr \<times> pystr) list \<Rightarrow> canvas" where
  "draw_stats_rows w c block_x text_x max_icon_width y [] = c"
| "draw_stats_rows w c block_x text_x max_icon_width y ((icon_text, text) # rest) =
     (let icon_bbox = textbbox w icon_small icon_text;
          icon_width = bbox2 icon_bbox - bbox0 icon_bbox;
          icon_x = block_x + (max_icon_width - icon_width);
          c = emit (Text icon_x y icon_text 0 icon_small) c;
          c = emit (Text text_x y text 0 circuit_stats_value) c
      in draw_stats_rows w c block_x text_x max_icon_width (y + circuit_stats_row_height) rest)"

definition draw_circuit_stats ::
  "world \<Rightarrow> translator \<Rightarrow> canvas \<Rightarrow> race_data \<Rightarrow> int \<Rightarrow> error + canvas" where
  "draw_circuit_stats w tr c rd schedule_bottom =
     (let circuit_id = (case rd_circuit rd of None \<Rightarrow> [] | Some ci \<Rightarrow> or_empty (circuitId ci));
          mapped_id = mapped_circuit_id circuit_id
      in case circuits_data w mapped_id of
           None \<Rightarrow> Inr c
         | Some circuit_data \<Rightarrow>
             (case stats_lines tr circuit_data of
                Inl e \<Rightarrow> Inl e
              | Inr stats \<Rightarrow>
                  if stats = [] then Inr c
                  else
                    (let results_line_y = results_y_start;
                         total_stats_height = int (length stats) * circuit_stats_row_height;
                         y_start = results_line_y - 3 - total_stats_height;
                         max_icon_width =
                           fold (\<lambda>(icon_text, text) m.
                                   max m (bbox2 (textbbox w icon_small icon_text)
                                          - bbox0 (textbbox w icon_small icon_text))) stats 0;
                         max_text_width =
                           fold (\<lambda>(icon_text, text) m.
                                   max m (bbox2 (textbbox w circuit_stats_value text)
                                          - bbox0 (textbbox w circuit_stats_value text))) stats 0;
                         icon_text_gap = 4;
                         total_block_width = max_icon_width + icon_text_gap + max_text_width;
                         right_margin = 5;
                         block_x = DISPLAY_WIDTH - right_margin - total_block_width;
                         text_x = block_x + max_icon_width + icon_text_gap
                     in Inr (draw_stats_rows w c block_x text_x max_icon_width y_start stats))))"

section \<open>Encoding and the two entry points\<close>

text \<open>
  Modelled from the spec: \<open>_to_bmp\<close> hands the image to Pillow's \<open>Image.save(format="BMP")\<close>,
  and Pillow is not part of the repository. The encoder below follows the output contract
  of the specification (file signature, BITMAPFILEHEADER and BITMAPINFOHEADER, a
  two-entry palette, rows padded to 4 bytes, bottom row first) for a 1-bit image; a set
  bit is a white pixel and the leftmost pixel of a byte is its highest bit.
\<close>

type_synonym byte = "8 word"

definition o8 :: "nat \<Rightarrow> byte" where
  "o8 n = of_nat n"

definition o16 :: "nat \<Rightarrow> byte list" where
  "o16 n = [o8 (n mod 256), o8 (n div 256 mod 256)]"

definition o32 :: "nat \<Rightarrow> byte list" where
  "o32 n = [o8 (n mod 256), o8 (n div 256 mod 256), o8 (n div 65536 mod 256),
            o8 (n div 16777216 mod 256)]"

definition bmp_stride :: "nat \<Rightarrow> nat \<Rightarrow> nat" where
  "bmp_stride width bits = ((width * bits + 7) div 8 + 3) div 4 * 4"

definition pack_bits :: "bool list \<Rightarrow> byte" where
  "pack_bits bs = o8 (foldl (\<lambda>a b. 2 * a + (if b then 1 else 0)) 0 bs)"

definition row_bytes :: "(nat \<Rightarrow> bool) \<Rightarrow> nat \<Rightarrow> byte list" where
  "row_bytes px width =
     map (\<lambda>k. pack_bits (map (\<lambda>i. 8 * k + i < width \<and> px (8 * k + i)) [0..<8]))
       [0..<bmp_stride width 1]"

definition bmp_encode :: "nat \<Rightarrow> nat \<Rightarrow> (nat \<Rightarrow> nat \<Rightarrow> bool) \<Rightarrow> byte list" where
  "bmp_encode width height px =
     (let bits = 1;
          colors = 2;
          stride = bmp_stride width bits;
          header = 40;
          image_size = stride * height;
          offset = 14 + header + colors * 4;
          file_size = offset + image_size
      in [0x42, 0x4D] @ o32 file_size @ o32 0 @ o32 offset
         @ o32 header @ o32 width @ o32 height @ o16 1 @ o16 bits @ o32 0 @ o32 image_size
         @ o32 3780 @ o32 3780 @ o32 colors @ o32 colors
         @ [0, 0, 0, 0] @ [255, 255, 255, 255]
         @ concat (map (\<lambda>r. row_bytes (\<lambda>x. px x (height - 1 - r)) width) [0..<height]))"

definition to_bmp :: "world \<Rightarrow> canvas \<Rightarrow> byte list" where
  "to_bmp w im = bmp_encode (nat (cv_width im)) (nat (cv_height im)) (rasterize w im)"

text \<open>
  A decoder for the same format: it checks the signature, the sizes the headers
  announce against the bytes present, and returns width, height and bits per pixel;
  \<open>bmp_pixel\<close> reads one pixel of a 1-bit file (true for white).
\<close>

definition u16_at :: "byte list \<Rightarrow> nat \<Rightarrow> nat" where
  "u16_at bs i = unat (bs ! i) + 256 * unat (bs ! (i + 1))"

definition u32_at :: "byte list \<Rightarrow> nat \<Rightarrow> nat" where
  "u32_at bs i = unat (bs ! i) + 256 * unat (bs ! (i + 1)) + 65536 * unat (bs ! (i + 2))
                 + 16777216 * unat (bs ! (i + 3))"

definition bmp_decode :: "byte list \<Rightarrow> (nat \<times> nat \<times> nat) option" where
  "bmp_decode bs =
     (if length bs < 54 then None
      else if bs ! 0 \<noteq> 0x42 \<or> bs ! 1 \<noteq> 0x4D then None
      else
        (let file_size = u32_at bs 2;
             offset = u32_at bs 10;
             header = u32_at bs 14;
             width = u32_at bs 18;
             height = u32_at bs 22;
             planes = u16_at bs 26;
             bits = u16_at bs 28;
             compression = u32_at bs 30;
             colors = u32_at bs 46
         in if file_size = length bs \<and> header = 40 \<and> planes = 1 \<and> compression = 0
               \<and> bits = 1 \<and> colors = 2 \<and> 14 + header + 4 * colors \<le> offset
               \<and> offset + bmp_stride width bits * height = length bs
            then Some (width, height, bits)
            else None))"

definition bmp_pixel :: "byte list \<Rightarrow> nat \<Rightarrow> nat \<Rightarrow> bool" where
  "bmp_pixel bs x y =
     (let offset = u32_at bs 10;
          width = u32_at bs 18;
          height = u32_at bs 22;
          b = bs ! (offset + (height - 1 - y) * bmp_stride width 1 + x div 8)
      in odd (unat b div 2 ^ (7 - x mod 8)))"

text \<open>\<open>render_calendar\<close> and \<open>render_error\<close>.\<close>

definition render_calendar ::
  "world \<Rightarrow> translator \<Rightarrow> race_data \<Rightarrow> historical_data option \<Rightarrow> error + byte list" where
  "render_calendar w tr rd hist =
     (let im = new_image;
          im = draw_header w im rd
      in case draw_track_section w im rd of
           Inl e \<Rightarrow> Inl e
         | Inr im \<Rightarrow>
             (case draw_schedule_section w tr im rd of
                Inl e \<Rightarrow> Inl e
              | Inr (im, schedule_bottom) \<Rightarrow>
                  (case draw_circuit_stats w tr im rd schedule_bottom of
                     Inl e \<Rightarrow> Inl e
                   | Inr im \<Rightarrow>
                       (case draw_results_section w tr im rd hist of
                          Inl e \<Rightarrow> Inl e
                        | Inr im \<Rightarrow> Inr (to_bmp w im)))))"

definition render_error_image :: "translator \<Rightarrow> pystr \<Rightarrow> canvas" where
  "render_error_image tr error_message =
     (let im = new_image;
          error_text = tr_get tr ''error'' ''Error'';
          im = emit (Text padding padding (error_text @ lit '':'') 0 schedule_title) im
      in emit (Text padding (padding + 50) (take 60 error_message) 0 schedule_row) im)"

definition render_error :: "world \<Rightarrow> translator \<Rightarrow> pystr \<Rightarrow> byte list" where
  "render_error w tr error_message = to_bmp w (render_error_image tr error_message)"

section \<open>Notions used in the statements\<close>

text \<open>
  Drawing calls: a text call; a result row (a text in the row font at the column's left
  edge); a session name of the schedule (a text in the bold row font in the name
  column, with its Y); the height of a rectangle.
\<close>

fun is_text :: "draw_op \<Rightarrow> bool" where
  "is_text (Text x y s f k) = True"
| "is_text _ = False"

fun is_row_text :: "int \<Rightarrow> draw_op \<Rightarrow> bool" where
  "is_row_text x_start (Text x y s f k) = (x = x_start \<and> k = results_row)"
| "is_row_text x_start _ = False"

text \<open>A list element is of the class whose time attribute the column reads.\<close>

fun item_matches :: "bool \<Rightarrow> result_item \<Rightarrow> bool" where
  "item_matches is_qualifying (QualifyingItem q) = is_qualifying"
| "item_matches is_qualifying (RaceItem r) = (\<not> is_qualifying)"

text \<open>A schedule entry's timestamp can be read: it is absent, an object, or a string that parses.\<close>

fun parseable :: "world \<Rightarrow> dt_value \<Rightarrow> bool" where
  "parseable w (DtStr s) = (fromisoformat w s \<noteq> None)"
| "parseable w (DtObj d) = True"
| "parseable w DtNone = True"

text \<open>The session name as drawn: the translation under \<open>session_<name>\<close>, else the name.\<close>

definition translated_name :: "world \<Rightarrow> translator \<Rightarrow> schedule_event \<Rightarrow> pystr" where
  "translated_name w tr event =
     translator_get tr (lit ''session_'' @ py_lower w (or_empty (ev_name event)))
       (or_empty (ev_name event))"

fun session_text :: "draw_op \<Rightarrow> (int \<times> pystr) option" where
  "session_text (Text x y s f k) =
     (if x = schedule_name_x \<and> k = schedule_row_bold then Some (y, s) else None)"
| "session_text _ = None"

text \<open>
  The countdown: the entry named "race", its timestamp if it has one, the time remaining
  in microseconds, and the text, height, top and drawing calls of the box.
\<close>

definition is_race :: "world \<Rightarrow> schedule_event \<Rightarrow> bool" where
  "is_race w e = (py_lower w (or_empty (ev_name e)) = lit ''race'')"

fun timestamp :: "world \<Rightarrow> schedule_event \<Rightarrow> datetime option" where
  "timestamp w e = (case ev_datetime e of
                      DtStr s \<Rightarrow> fromisoformat w s
                    | DtObj d \<Rightarrow> Some d
                    | DtNone \<Rightarrow> None)"

definition schedule_of :: "race_data \<Rightarrow> schedule_event list" where
  "schedule_of rd = (case rd_schedule rd of None \<Rightarrow> [] | Some evs \<Rightarrow> evs)"

definition remaining_micros :: "world \<Rightarrow> datetime \<Rightarrow> int" where
  "remaining_micros w d = micros d - (if tzinfo d \<noteq> None then now_aware w else now_naive w)"

definition countdown_text :: "translator \<Rightarrow> int \<Rightarrow> pystr" where
  "countdown_text tr delta =
     tr_get tr ''countdown_in'' ''IN'' @ lit '' '' @ str_int (delta div 86400000000) @ lit '' ''
     @ tr_get tr ''countdown_days'' ''days'' @ lit '' ''
     @ str_int ((delta mod 86400000000) div 3600000000) @ lit '' ''
     @ tr_get tr ''countdown_hours'' ''hours''"

definition countdown_box_height :: "world \<Rightarrow> int" where
  "countdown_box_height w =
     bbox3 (textbbox w schedule_row_bold TEXT_BASELINE_REF)
     - bbox1 (textbbox w schedule_row_bold TEXT_BASELINE_REF) + 12"

definition countdown_box_top :: "world \<Rightarrow> int \<Rightarrow> int" where
  "countdown_box_top w schedule_bottom =
     schedule_bottom + (328 - schedule_bottom - countdown_box_height w) div 2"

definition countdown_ops :: "world \<Rightarrow> translator \<Rightarrow> int \<Rightarrow> int \<Rightarrow> draw_op list" where
  "countdown_ops w tr schedule_bottom delta =
     (let y_top = countdown_box_top w schedule_bottom;
          message = countdown_text tr delta;
          text_bbox = textbbox w schedule_row_bold message
      in [Rectangle 510 y_top 795 (y_top + countdown_box_height w) (Some 0) (Some 0) 1,
          Text (510 + (285 - (bbox2 text_bbox - bbox0 text_bbox)) div 2)
               (y_top + 6 - bbox1 (textbbox w schedule_row_bold TEXT_BASELINE_REF))
               message 1 schedule_row_bold])"

text \<open>The Y a section returns, and the heights of the rectangles a section adds to a canvas.\<close>

fun returned_y :: "error + canvas \<times> int \<Rightarrow> error + int" where
  "returned_y (Inl e) = Inl e"
| "returned_y (Inr (c, y)) = Inr y"

fun rect_height :: "draw_op \<Rightarrow> int option" where
  "rect_height (Rectangle x0 y0 x1 y1 f ol wd) = Some (y1 - y0)"
| "rect_height _ = None"

definition new_box_heights :: "canvas \<Rightarrow> error + canvas \<times> int \<Rightarrow> int list" where
  "new_box_heights c r =
     (case r of Inl e \<Rightarrow> [] | Inr (c', y) \<Rightarrow> List.map_filter rect_height (drop (length (ops c)) (ops c')))"

text \<open>
  The pixel data and the 62 header bytes of an 800 by 480 file, the number a list of
  bits stands for, and the frame (mode and size) of a canvas.
\<close>

definition bmp_data :: "nat \<Rightarrow> nat \<Rightarrow> (nat \<Rightarrow> nat \<Rightarrow> bool) \<Rightarrow> byte list" where
  "bmp_data width height px =
     concat (map (\<lambda>r. row_bytes (\<lambda>x. px x (height - 1 - r)) width) [0..<height])"

definition header_800_480 :: "byte list" where
  "header_800_480 =
     [0x42, 0x4D, 0xBE, 0xBB, 0, 0, 0, 0, 0, 0, 0x3E, 0, 0, 0,
      0x28, 0, 0, 0, 0x20, 0x03, 0, 0, 0xE0, 0x01, 0, 0, 1, 0, 1, 0, 0, 0, 0, 0,
      0x80, 0xBB, 0, 0, 0xC4, 0x0E, 0, 0, 0xC4, 0x0E, 0, 0, 2, 0, 0, 0, 2, 0, 0, 0,
      0, 0, 0, 0, 255, 255, 255, 255]"

definition bits_val :: "bool list \<Rightarrow> nat" where
  "bits_val bs = foldl (\<lambda>a b. 2 * a + (if b then 1 else 0)) 0 bs"

definition frame :: "canvas \<Rightarrow> image_mode \<times> int \<times> int" where
  "frame c = (cv_mode c, cv_width c, cv_height c)"


section \<open>Sample inputs\<close>

text \<open>
  A world without asset files in which every text is 10 pixels wide per character and
  spans the rows 4 to 24; a second one with a running clock; results, race dictionaries
  and schedules in the shape of the repository's test fixtures.
\<close>

definition sample_metrics :: metrics where
  "sample_metrics font t = (0, 4, 10 * int (length t), 24)"

definition sample_world :: world where
  "sample_world = \<lparr>textbbox = sample_metrics, unicode_lower = (\<lambda>s. s), unicode_upper = (\<lambda>s. s),
     fromisoformat = (\<lambda>s. None), strftime = (\<lambda>d f. []), now_aware = 0, now_naive = 0,
     path_exists = (\<lambda>p. False), glob = (\<lambda>d p. []), image_open = (\<lambda>p. None),
     thumbnail_size = (\<lambda>w h tw th. (tw, th)), content_box = (\<lambda>i. NoContent),
     fit_size = (\<lambda>aw ah w h. (aw, ah)),
     scale_height = (\<lambda>h a b. h * a div b), circuits_data = (\<lambda>k. None),
     rasterize = (\<lambda>c x y. True)\<rparr>"

definition verstappen :: driver_info where
  "verstappen = \<lparr>driver_code = lit ''VER'', given_name = lit ''Max'', family_name = lit ''Verstappen''\<rparr>"

definition red_bull :: constructor_info where
  "red_bull = \<lparr>constructor_name = lit ''Red Bull''\<rparr>"

definition sample_qualifying :: "qualifying_result_entry list" where
  "sample_qualifying =
     [\<lparr>q_position = 1, q_driver = verstappen, q_constructor = red_bull, q3_time = Some (lit ''1:29.708'')\<rparr>,
      \<lparr>q_position = 2, q_driver = verstappen, q_constructor = red_bull, q3_time = None\<rparr>,
      \<lparr>q_position = 3, q_driver = verstappen, q_constructor = red_bull, q3_time = Some (lit ''1:30.012'')\<rparr>,
      \<lparr>q_position = 4, q_driver = verstappen, q_constructor = red_bull, q3_time = Some (lit ''1:31.000'')\<rparr>]"

definition sample_race :: "race_result_entry list" where
  "sample_race =
     [\<lparr>r_position = 1, r_driver = verstappen, r_constructor = red_bull, r_time = Some (lit ''1:33:56.736'')\<rparr>]"

definition atlantis_race :: race_data where
  "atlantis_race = \<lparr>rd_race_name = Some (lit ''Test Grand Prix''), rd_season = Some (lit ''2024''),
     rd_circuit = Some \<lparr>circuitId = Some (lit ''test_circuit''), circuit_title = Some (lit ''Test Circuit''),
                         location = Some (lit ''Test City''), country = Some (lit ''Atlantis'')\<rparr>,
     rd_schedule = Some []\<rparr>"

definition new_track_history :: historical_data where
  "new_track_history = \<lparr>season = Some 2023, is_new_track = True, race_results = sample_race,
     qualifying_results = sample_qualifying\<rparr>"

definition sample_history :: historical_data where
  "sample_history = \<lparr>season = Some 2023, is_new_track = False, race_results = sample_race,
     qualifying_results = sample_qualifying\<rparr>"

definition sample_strftime :: "datetime \<Rightarrow> pystr \<Rightarrow> pystr" where
  "sample_strftime d fmt =
     (if fmt = lit ''%a'' then lit ''Sun''
      else if fmt = lit ''%H:%M'' then lit ''15:00''
      else lit ''09.03.'')"

definition clock_world :: world where
  "clock_world = sample_world\<lparr>strftime := sample_strftime, now_aware := 1000000, now_naive := 0\<rparr>"

definition race_time :: datetime where
  "race_time = \<lparr>micros = 192601000000, tzinfo = Some 60\<rparr>"

definition session :: "string \<Rightarrow> dt_value \<Rightarrow> schedule_event" where
  "session n dt = \<lparr>ev_name = Some (lit n), ev_datetime = dt, ev_display_time = Some (lit ''Sun 17:00'')\<rparr>"

definition future_weekend :: race_data where
  "future_weekend = atlantis_race\<lparr>rd_schedule := Some [session ''Race'' (DtObj race_time)]\<rparr>"

definition fixture_weekend :: race_data where
  "fixture_weekend = atlantis_race\<lparr>rd_schedule :=
     Some [session ''FP1'' DtNone, session ''Qualifying'' DtNone, session ''Race'' DtNone]\<rparr>"

definition seven_sessions :: "schedule_event list" where
  "seven_sessions = [session ''FP1'' DtNone, session ''FP2'' DtNone, session ''FP3'' DtNone,
     session ''Sprint'' DtNone, session ''Qualifying'' DtNone, session ''Race'' DtNone,
     session ''Parade'' (DtStr (lit ''soon''))]"

definition parade_weekend :: race_data where
  "parade_weekend = atlantis_race\<lparr>rd_schedule := Some seven_sessions\<rparr>"

definition bad_weekend :: race_data where
  "bad_weekend = atlantis_race\<lparr>rd_schedule := Some [session ''FP1'' (DtStr (lit ''soon''))]\<rparr>"

definition long_weekend :: race_data where
  "long_weekend = atlantis_race\<lparr>rd_schedule :=
     Some [session ''FP1'' DtNone, session ''FP2'' DtNone, session ''FP3'' DtNone,
           session ''Sprint Qualifying'' DtNone, session ''Sprint'' DtNone,
           session ''Qualifying'' DtNone, session ''Race'' (DtObj race_time)]\<rparr>"

definition long_weekend_cut :: race_data where
  "long_weekend_cut = atlantis_race\<lparr>rd_schedule :=
     Some [session ''FP1'' DtNone, session ''FP2'' DtNone, session ''FP3'' DtNone,
           session ''Sprint Qualifying'' DtNone, session ''Sprint'' DtNone,
           session ''Qualifying'' DtNone]\<rparr>"






definition czech :: translator where
  "czech = [lit ''countdown_in'' \<mapsto> lit ''ZA'', lit ''countdown_days'' \<mapsto> [100, 110, 237],
            lit ''countdown_hours'' \<mapsto> lit ''hodin'']"

section \<open>Properties of the text fitting\<close>

lemma range_down_upt: "range_down n 2 = rev [3..<Suc n]"
  by (induction n) auto

lemma truncate_team_find:
  "truncate_team w font max_width pos driver team is =
     find (\<lambda>t. get_width w font t \<le> max_width)
       (map (\<lambda>i. composite pos driver (take i team @ lit ''..'')) is)"
  by (induction "is") (simp_all add: Let_def)

lemma truncate_driver_find:
  "truncate_driver w font max_width pos driver short_team is =
     find (\<lambda>t. get_width w font t \<le> max_width)
       (map (\<lambda>i. composite pos (take i driver @ lit ''.'') short_team) is)"
  by (induction "is") (simp_all add: Let_def)

lemma find_append_cases:
  "find P (xs @ ys) = (case find P xs of Some x \<Rightarrow> Some x | None \<Rightarrow> find P ys)"
  by (induction xs) simp_all

text \<open>
  C2. For every position, driver name, team name, font metrics and maximum width,
  \<open>_fit_text\<close> returns the first candidate of the staged policy that fits (the full
  composite, then the team name shortened from its full length down to 3 characters
  with \<open>..\<close>, then the driver name shortened down to 3 characters with \<open>.\<close> beside the
  3-character team), and the fixed fallback of 5 driver and 3 team characters when none
  fits. The function is total: it returns a string on every input.
\<close>

theorem fit_text_staged_policy:
  "fit_text w font max_width pos driver team =
     staged_fit (\<lambda>t. get_width w font t \<le> max_width) pos driver team"
  by (simp add: fit_text_def staged_fit_def team_forms_def driver_forms_def fallback_form_def
      truncate_team_find truncate_driver_find range_down_upt find_append_cases Let_def
      split: option.splits)

section \<open>Properties of the historical results section\<close>

lemma ops_emit [simp]: "ops (emit op c) = ops c @ [op]"
  by (simp add: emit_def)

lemma draw_result_rows_ok:
  "list_all (item_matches isq) items \<Longrightarrow> tx \<noteq> x \<Longrightarrow>
   \<exists>c' new. draw_result_rows w c x tx y0 isq i items = Inr c' \<and> ops c' = ops c @ new \<and>
     list_all is_text new \<and> length (filter (is_row_text x) new) = length items"
proof (induction items arbitrary: c i)
  case Nil
  then show ?case by simp
next
  case (Cons e es)
  from Cons.prems have m: "item_matches isq e" and ms: "list_all (item_matches isq) es" by simp_all
  obtain t where t: "(if isq then item_q3_time e else item_time e) = Inr t"
    using m by (cases e) auto
  define c1 where "c1 = emit (Text x (y0 + int i * results_row_height)
      (fit_text w results_row (results_time_offset - 10) (item_position e) (display_name (item_driver e))
         (constructor_name (item_constructor e))) 0 results_row) c"
  define c2 where "c2 = (if or_empty t \<noteq> [] then emit (Text tx (y0 + int i * results_row_height) (or_empty t) 0 results_row) c1 else c1)"
  have step: "draw_result_rows w c x tx y0 isq i (e # es) = draw_result_rows w c2 x tx y0 isq (Suc i) es"
    using t by (simp add: Let_def c1_def c2_def)
  from Cons.IH[OF ms Cons.prems(2), of c2 "Suc i"] obtain c' new where
    r: "draw_result_rows w c2 x tx y0 isq (Suc i) es = Inr c'" "ops c' = ops c2 @ new"
       "list_all is_text new" "length (filter (is_row_text x) new) = length es" by blast
  have "\<exists>pre. ops c2 = ops c @ pre \<and> list_all is_text pre \<and> length (filter (is_row_text x) pre) = 1"
    using Cons.prems(2) by (auto simp: c2_def c1_def)
  then obtain pre where p: "ops c2 = ops c @ pre" "list_all is_text pre" "length (filter (is_row_text x) pre) = 1" by blast
  show ?case
    apply (rule exI[of _ c'], rule exI[of _ "pre @ new"])
    using step r p by simp
qed

lemma lit_simps: "lit [] = []" "lit (ch # s) = of_char ch # lit s"
  by (simp_all add: lit_def)

text \<open>
  C3. Whenever the historical data is absent or its \<open>is_new_track\<close> flag is set, the
  results section draws the separator line and one centred, translated NEW TRACK message
  30 pixels below it, and nothing else: no year header, no flag, no column title and no
  result row, whatever the result lists hold.
\<close>

theorem new_track_message_only:
  assumes "hist = None \<or> (\<exists>h. hist = Some h \<and> is_new_track h)"
  shows "draw_results_section w tr c rd hist =
     Inr (c\<lparr>ops := ops c @
       (let message = tr_get tr ''new_track'' ''NEW TRACK'';
            bbox = textbbox w schedule_title message
        in [Line 0 385 800 385 0 2,
            Text ((800 - (bbox2 bbox - bbox0 bbox)) div 2) 415 message 0 schedule_title])\<rparr>)"
  using assms
  by (auto simp: draw_results_section_def draw_new_track_message_def emit_def Let_def
      results_y_start_def DISPLAY_WIDTH_def separator_width_def)

theorem new_track_message_only_witness:
  "is_new_track new_track_history \<and> qualifying_results new_track_history \<noteq> [] \<and>
   draw_results_section sample_world Map.empty new_image atlantis_race (Some new_track_history) =
     Inr (new_image\<lparr>ops := [Line 0 385 800 385 0 2,
                             Text 355 415 (lit ''NEW TRACK'') 0 schedule_title]\<rparr>)"
proof -
  have h: "is_new_track new_track_history" by (simp add: new_track_history_def)
  have nt: "Some new_track_history = None \<or> (\<exists>h. Some new_track_history = Some h \<and> is_new_track h)"
    using h by simp
  show ?thesis
    using new_track_message_only [OF nt, of sample_world Map.empty new_image atlantis_race] h
    by (simp add: new_track_history_def sample_qualifying_def tr_get_def sample_world_def sample_metrics_def
        new_image_def lit_simps Let_def)
qed

lemma country_map_spelled:
  "map_of COUNTRY_MAP (lit ''UAE'') \<noteq> None"
  "map_of COUNTRY_MAP (lit ''UK'') \<noteq> None"
  "map_of COUNTRY_MAP (lit ''USA'') \<noteq> None"
  by (simp_all add: COUNTRY_MAP_def lit_simps)

lemma py_lower_empty: "py_lower w [] = []"
  by (simp add: py_lower_def is_ascii_def ascii_lower_def)

lemma iso_code_unmapped:
  assumes "map_of COUNTRY_MAP country_name = None"
  shows "iso_code_of w country_name = py_lower w (take 2 country_name)"
proof -
  have "country_name \<noteq> lit ''UAE''" "country_name \<noteq> lit ''UK''" "country_name \<noteq> lit ''USA''"
    using assms country_map_spelled by auto
  then show ?thesis
    using assms by (simp add: iso_code_of_def py_lower_empty Let_def)
qed

lemma draw_results_column_ok:
  assumes "list_all (item_matches isq) (take 3 results)"
  shows "\<exists>c' new. draw_results_column w c x vt title results isq = Inr c' \<and>
     ops c' = ops c @ Text x (vt - bbox1 (textbbox w results_title TEXT_BASELINE_REF)) title 0 results_title # new \<and>
     list_all is_text new \<and> length (filter (is_row_text x) new) = min 3 (length results)"
proof -
  define c1 where "c1 = emit (Text x (vt - bbox1 (textbbox w results_title TEXT_BASELINE_REF)) title 0 results_title) c"
  have ne: "x + results_time_offset \<noteq> x" by (simp add: results_time_offset_def)
  obtain y0 where col: "draw_results_column w c x vt title results isq =
      draw_result_rows w c1 x (x + results_time_offset) y0 isq 0 (take 3 results)"
    by (simp add: draw_results_column_def Let_def c1_def)
  from draw_result_rows_ok[OF assms ne, of w c1 y0 0] obtain c' new where
    r: "draw_result_rows w c1 x (x + results_time_offset) y0 isq 0 (take 3 results) = Inr c'"
       "ops c' = ops c1 @ new" "list_all is_text new"
       "length (filter (is_row_text x) new) = length (take 3 results)" by blast
  show ?thesis
    apply (rule exI[of _ c'], rule exI[of _ new])
    using col r by (simp add: c1_def min.commute)
qed

lemma qualifying_items_match: "list_all (item_matches True) (take 3 (map QualifyingItem qs))"
  by (simp add: take_map list_all_iff)

lemma race_items_match: "list_all (item_matches False) (take 3 (map RaceItem rs))"
  by (simp add: take_map list_all_iff)

text \<open>
  C9. For a country name that is not a key of the country table, the flag code is the
  lowercase of the name's first two characters; and when no flag file exists for that
  code, the results section still succeeds: it draws the separator, the year and both
  column titles, and every other drawing call is a text call, so only the flag (its
  paste and its border) is left out.
\<close>

theorem unknown_country_flag_skipped:
  assumes "map_of COUNTRY_MAP (circuit_country rd) = None"
    and "\<not> path_exists w (flag_path (py_lower w (take 2 (circuit_country rd))))"
    and "\<not> is_new_track h"
  shows "iso_code_of w (circuit_country rd) = py_lower w (take 2 (circuit_country rd)) \<and>
    (let year_text = (case season h of None \<Rightarrow> [] | Some n \<Rightarrow> if n = 0 then [] else str_int n);
         bbox = textbbox w results_year year_text;
         visual_top = 385 + (95 - (bbox3 bbox - bbox1 bbox)) div 2;
         title_y = visual_top - bbox1 (textbbox w results_title TEXT_BASELINE_REF)
     in \<exists>c' rest. draw_results_section w tr c rd (Some h) = Inr c' \<and>
          ops c' = ops c @
            [Line 0 385 800 385 0 2,
             Text ((109 - (bbox2 bbox - bbox0 bbox)) div 2) (visual_top - bbox1 bbox) year_text 0 results_year,
             Text 109 title_y (tr_get tr ''qualifying'' ''QUALIFYING'') 0 results_title] @ rest \<and>
          list_all is_text rest \<and>
          Text 455 title_y (tr_get tr ''race'' ''RACE'') 0 results_title \<in> set rest)"
proof -
  define cn where "cn = circuit_country rd"
  have iso: "iso_code_of w cn = py_lower w (take 2 cn)"
    using assms(1) iso_code_unmapped cn_def by simp
  have noflag: "load_flag w (iso_code_of w cn) = None"
    using assms(2)[folded cn_def] by (simp add: load_flag_def iso Let_def)
  define year_text where "year_text = (case season h of None \<Rightarrow> [] | Some n \<Rightarrow> if n = 0 then [] else str_int n)"
  define season_arg where "season_arg = (case season h of None \<Rightarrow> StrVal [] | Some n \<Rightarrow> if n = 0 then StrVal [] else IntVal n)"
  have yt: "py_str season_arg = year_text"
    by (simp add: season_arg_def year_text_def split: option.splits)
  define bbox where "bbox = textbbox w results_year year_text"
  define visual_top where "visual_top = 385 + (95 - (bbox3 bbox - bbox1 bbox)) div 2"
  define title_y where "title_y = visual_top - bbox1 (textbbox w results_title TEXT_BASELINE_REF)"
  define c0 where "c0 = emit (Line 0 385 800 385 0 2) c"
  define c1 where "c1 = emit (Text ((109 - (bbox2 bbox - bbox0 bbox)) div 2) (visual_top - bbox1 bbox) year_text 0 results_year) c0"
  have hdr: "draw_results_header w c0 385 season_arg cn = Inr (c1, visual_top)"
    by (simp add: draw_results_header_def noflag yt Let_def c1_def visual_top_def bbox_def
        DISPLAY_HEIGHT_def results_col1_x_def)
  obtain c2 new1 where q:
    "draw_results_column w c1 109 visual_top (tr_get tr ''qualifying'' ''QUALIFYING'')
       (map QualifyingItem (qualifying_results h)) True = Inr c2"
    "ops c2 = ops c1 @ Text 109 title_y (tr_get tr ''qualifying'' ''QUALIFYING'') 0 results_title # new1"
    "list_all is_text new1"
    using draw_results_column_ok[OF qualifying_items_match, of w c1 109 visual_top _ "qualifying_results h"]
    unfolding title_y_def by blast
  obtain c3 new2 where r:
    "draw_results_column w c2 455 visual_top (tr_get tr ''race'' ''RACE'')
       (map RaceItem (race_results h)) False = Inr c3"
    "ops c3 = ops c2 @ Text 455 title_y (tr_get tr ''race'' ''RACE'') 0 results_title # new2"
    "list_all is_text new2"
    using draw_results_column_ok[OF race_items_match, of w c2 455 visual_top _ "race_results h"]
    unfolding title_y_def by blast
  have sec: "draw_results_section w tr c rd (Some h) = Inr c3"
    using assms(3) hdr q(1) r(1)
    by (simp add: draw_results_section_def Let_def results_y_start_def DISPLAY_WIDTH_def
        separator_width_def c0_def[symmetric] cn_def[symmetric] season_arg_def[symmetric]
        results_col1_x_def results_col2_x_def)
  have ops3: "ops c3 = ops c @ [Line 0 385 800 385 0 2,
        Text ((109 - (bbox2 bbox - bbox0 bbox)) div 2) (visual_top - bbox1 bbox) year_text 0 results_year,
        Text 109 title_y (tr_get tr ''qualifying'' ''QUALIFYING'') 0 results_title] @
        (new1 @ Text 455 title_y (tr_get tr ''race'' ''RACE'') 0 results_title # new2)"
    using q(2) r(2) by (simp add: c1_def c0_def)
  have "\<exists>c' rest. draw_results_section w tr c rd (Some h) = Inr c' \<and>
          ops c' = ops c @
            [Line 0 385 800 385 0 2,
             Text ((109 - (bbox2 bbox - bbox0 bbox)) div 2) (visual_top - bbox1 bbox) year_text 0 results_year,
             Text 109 title_y (tr_get tr ''qualifying'' ''QUALIFYING'') 0 results_title] @ rest \<and>
          list_all is_text rest \<and>
          Text 455 title_y (tr_get tr ''race'' ''RACE'') 0 results_title \<in> set rest"
    apply (rule exI[of _ c3])
    apply (rule exI[of _ "new1 @ Text 455 title_y (tr_get tr ''race'' ''RACE'') 0 results_title # new2"])
    using sec ops3 q(3) r(3) by simp
  then show ?thesis
    using iso unfolding cn_def year_text_def bbox_def visual_top_def title_y_def Let_def by blast
qed

text \<open>
  C10. A results column draws from the first three entries of its list only: the result
  for a list is the result for its first three entries, and when those entries are of
  the class the column reads, the column is drawn without error with exactly
  min(3, length) result rows after the title.
\<close>

theorem results_column_first_three:
  assumes "list_all (item_matches is_qualifying) (take 3 results)"
  shows "draw_results_column w c x_start visual_top title results is_qualifying =
           draw_results_column w c x_start visual_top title (take 3 results) is_qualifying \<and>
         (\<exists>c' rows. draw_results_column w c x_start visual_top title results is_qualifying = Inr c' \<and>
            ops c' = ops c @
              Text x_start (visual_top - bbox1 (textbbox w results_title TEXT_BASELINE_REF)) title 0
                results_title # rows \<and>
            list_all is_text rows \<and>
            length (filter (is_row_text x_start) rows) = min 3 (length results))"
  using draw_results_column_ok[OF assms] by (simp add: draw_results_column_def)

theorem unknown_country_flag_skipped_witness:
  "map_of COUNTRY_MAP (circuit_country atlantis_race) = None \<and>
   iso_code_of sample_world (circuit_country atlantis_race) = lit ''at'' \<and>
   (\<exists>c'. draw_results_section sample_world Map.empty new_image atlantis_race (Some sample_history) = Inr c' \<and>
      list_all is_text (tl (ops c')))"
proof -
  have cc: "circuit_country atlantis_race = lit ''Atlantis''"
    by (simp add: circuit_country_def atlantis_race_def)
  have a1: "map_of COUNTRY_MAP (circuit_country atlantis_race) = None"
    unfolding cc by (simp add: COUNTRY_MAP_def lit_simps)
  have a2: "\<not> path_exists sample_world (flag_path (py_lower sample_world (take 2 (circuit_country atlantis_race))))"
    by (simp add: sample_world_def)
  have a3: "\<not> is_new_track sample_history"
    by (simp add: sample_history_def)
  have lo: "py_lower sample_world (take 2 (lit ''Atlantis'')) = lit ''at''"
    by (simp add: py_lower_def is_ascii_def ascii_lower_def lit_simps)
  show ?thesis
    using unknown_country_flag_skipped [OF a1 a2 a3, of Map.empty new_image] a1 lo
    by (auto simp: cc Let_def new_image_def)
qed

theorem results_column_first_three_witness:
  "list_all (item_matches True) (take 3 (map QualifyingItem sample_qualifying)) \<and>
   length (map QualifyingItem sample_qualifying) = 4 \<and>
   (\<exists>c' rows. draw_results_column sample_world new_image 109 400 (lit ''QUALIFYING'')
        (map QualifyingItem sample_qualifying) True = Inr c' \<and>
      ops c' = Text 109 396 (lit ''QUALIFYING'') 0 results_title # rows \<and>
      length (filter (is_row_text 109) rows) = 3)"
proof -
  have a: "list_all (item_matches True) (take 3 (map QualifyingItem sample_qualifying))"
    by (simp add: sample_qualifying_def)
  have l: "length (map QualifyingItem sample_qualifying) = 4"
    by (simp add: sample_qualifying_def)
  have b: "bbox1 (textbbox sample_world results_title TEXT_BASELINE_REF) = 4"
    by (simp add: sample_world_def sample_metrics_def)
  from results_column_first_three [OF a, of sample_world new_image 109 400 "lit ''QUALIFYING''"]
  obtain c' rows where r:
    "draw_results_column sample_world new_image 109 400 (lit ''QUALIFYING'')
        (map QualifyingItem sample_qualifying) True = Inr c'"
    "ops c' = ops new_image @
       Text 109 (400 - bbox1 (textbbox sample_world results_title TEXT_BASELINE_REF))
         (lit ''QUALIFYING'') 0 results_title # rows"
    "length (filter (is_row_text 109) rows) = min 3 (length (map QualifyingItem sample_qualifying))"
    by blast
  have "ops c' = Text 109 396 (lit ''QUALIFYING'') 0 results_title # rows"
    using r(2) b by (simp add: new_image_def)
  moreover have "length (filter (is_row_text 109) rows) = 3"
    using r(3) l by simp
  ultimately show ?thesis
    using a l r(1) by blast
qed

section \<open>Properties of the schedule section and the countdown box\<close>

lemma draw_schedule_row_ok:
  assumes "parseable w (ev_datetime e)"
  shows "\<exists>c' new. draw_schedule_row w tr c y e = Inr c' \<and> ops c' = ops c @ new \<and>
           List.map_filter session_text new = [(y, translated_name w tr e)] \<and>
           list_all is_text new"
  using assms
  by (cases "ev_datetime e")
     (auto simp: draw_schedule_row_def Let_def translated_name_def List.map_filter_simps
        schedule_date_x_def schedule_day_x_def schedule_time_x_def schedule_name_x_def
        split: option.splits)

lemma map_filter_append: "List.map_filter f (xs @ ys) = List.map_filter f xs @ List.map_filter f ys"
  by (simp add: List.map_filter_def)

lemma draw_schedule_rows_from:
  assumes "i < 6" and "\<forall>e\<in>set (take (6 - i) sched). parseable w (ev_datetime e)"
  shows "\<exists>c' new. draw_schedule_rows w tr c (140 + 28 * int i) sched =
            Inr (c', 140 + 28 * int (i + min (6 - i) (length sched))) \<and>
          ops c' = ops c @ new \<and> list_all is_text new \<and>
          List.map_filter session_text new =
            map (\<lambda>(k, e). (140 + 28 * int k, translated_name w tr e))
              (enumerate i (take (6 - i) sched))"
  using assms
proof (induction sched arbitrary: c i)
  case Nil
  then show ?case by (simp add: List.map_filter_simps)
next
  case (Cons e es)
  from Cons.prems have pe: "parseable w (ev_datetime e)"
    by (cases "6 - i") auto
  from draw_schedule_row_ok[OF pe, of tr c "140 + 28 * int i"] obtain c1 new1 where
    r1: "draw_schedule_row w tr c (140 + 28 * int i) e = Inr c1" "ops c1 = ops c @ new1"
        "List.map_filter session_text new1 = [(140 + 28 * int i, translated_name w tr e)]"
        "list_all is_text new1" by blast
  show ?case
  proof (cases "i = 5")
    case True
    have "draw_schedule_rows w tr c (140 + 28 * int i) (e # es) = Inr (c1, 308)"
      using r1(1) True by (simp add: schedule_row_height_def results_y_start_def)
    then show ?thesis
      using True r1 by auto
  next
    case False
    with Cons.prems have lt: "Suc i < 6" by simp
    have d: "6 - i = Suc (6 - Suc i)" using lt by arith
    have tk: "take (6 - i) (e # es) = e # take (6 - Suc i) es"
      unfolding d by simp
    have sub: "\<forall>e\<in>set (take (6 - Suc i) es). parseable w (ev_datetime e)"
      using Cons.prems(2) unfolding tk by simp
    from Cons.IH[OF lt sub, of c1] obtain c' new where
      r: "draw_schedule_rows w tr c1 (140 + 28 * int (Suc i)) es =
            Inr (c', 140 + 28 * int (Suc i + min (6 - Suc i) (length es)))"
         "ops c' = ops c1 @ new" "list_all is_text new"
         "List.map_filter session_text new =
            map (\<lambda>(k, e). (140 + 28 * int k, translated_name w tr e))
              (enumerate (Suc i) (take (6 - Suc i) es))" by blast
    have step: "draw_schedule_rows w tr c (140 + 28 * int i) (e # es) =
                  draw_schedule_rows w tr c1 (140 + 28 * int (Suc i)) es"
      using r1(1) lt by (simp add: schedule_row_height_def results_y_start_def algebra_simps)
    have len: "i + min (6 - i) (length (e # es)) = Suc i + min (6 - Suc i) (length es)"
      using lt by auto
    show ?thesis
      apply (rule exI[of _ c'], rule exI[of _ "new1 @ new"])
      using step r r1 tk len by (simp add: map_filter_append)
  qed
qed

lemma draw_schedule_rows_take:
  "i < 6 \<Longrightarrow> draw_schedule_rows w tr c (140 + 28 * int i) sched =
     draw_schedule_rows w tr c (140 + 28 * int i) (take (6 - i) sched)"
proof (induction sched arbitrary: c i)
  case Nil
  then show ?case by simp
next
  case (Cons e es)
  have d: "6 - i = Suc (6 - Suc i)" using Cons.prems by arith
  have tk: "take (6 - i) (e # es) = e # take (6 - Suc i) es"
    unfolding d by simp
  show ?case
  proof (cases "i = 5")
    case True
    then show ?thesis
      by (simp add: schedule_row_height_def results_y_start_def split: sum.splits)
  next
    case False
    with Cons.prems have lt: "Suc i < 6" by simp
    have "\<And>c1. draw_schedule_rows w tr c1 (140 + 28 * int i + 28) es =
           draw_schedule_rows w tr c1 (140 + 28 * int i + 28) (take (6 - Suc i) es)"
      using Cons.IH[OF lt] by (simp add: algebra_simps)
    then show ?thesis
      unfolding tk by (simp add: schedule_row_height_def results_y_start_def Let_def split: sum.splits)
  qed
qed

lemma draw_schedule_rows_six:
  assumes "\<forall>e\<in>set (take 6 schedule). parseable w (ev_datetime e)"
  shows "schedule_start_y + schedule_row_height * 5 \<le> results_y_start - 80 \<and>
         results_y_start - 80 < schedule_start_y + schedule_row_height * 6 \<and>
         draw_schedule_rows w tr c schedule_start_y schedule =
           draw_schedule_rows w tr c schedule_start_y (take 6 schedule) \<and>
         (\<exists>c' new. draw_schedule_rows w tr c schedule_start_y schedule =
              Inr (c', schedule_start_y + schedule_row_height * int (min 6 (length schedule))) \<and>
            ops c' = ops c @ new \<and> list_all is_text new \<and>
            List.map_filter session_text new =
              map (\<lambda>(i, e). (schedule_start_y + schedule_row_height * int i, translated_name w tr e))
                (enumerate 0 (take 6 schedule)))"
proof -
  have a: "\<forall>e\<in>set (take (6 - 0) schedule). parseable w (ev_datetime e)"
    using assms by simp
  from draw_schedule_rows_from[OF _ a, of tr c] draw_schedule_rows_take[of 0 w tr c schedule]
  show ?thesis
    by (simp add: schedule_start_y_def schedule_row_height_def results_y_start_def)
qed

lemma find_race_dt_find:
  "find_race_dt w sched =
     (case find (is_race w) sched of
        None \<Rightarrow> Inr None
      | Some e \<Rightarrow> (case ev_datetime e of
                     DtStr s \<Rightarrow> (case fromisoformat w s of
                                   None \<Rightarrow> Inl ValueError
                                 | Some d \<Rightarrow> Inr (Some d))
                   | DtObj d \<Rightarrow> Inr (Some d)
                   | DtNone \<Rightarrow> Inr None))"
  by (induction sched) (simp_all add: is_race_def)

lemma hours_of_seconds: "(x::int) div 1000000 div 3600 = x div 3600000000"
  by (simp add: div_mult2_eq[symmetric])

lemma countdown_box_drawn:
  assumes "find_race_dt w (schedule_of rd) = Inr (Some d)"
  shows "draw_countdown_box w tr c rd sb =
     (if remaining_micros w d \<le> 0 then Inr (c, sb)
      else Inr (c\<lparr>ops := ops c @ countdown_ops w tr sb (remaining_micros w d)\<rparr>,
                countdown_box_top w sb + countdown_box_height w))"
  using assms
  by (simp add: draw_countdown_box_def schedule_of_def remaining_micros_def Let_def
      countdown_ops_def countdown_text_def countdown_box_top_def countdown_box_height_def
      hours_of_seconds emit_def right_column_x_def DISPLAY_WIDTH_def results_y_start_def
      circuit_stats_row_height_def algebra_simps)

lemma countdown_box_none:
  assumes "find_race_dt w (schedule_of rd) = Inr None"
  shows "draw_countdown_box w tr c rd sb = Inr (c, sb)"
  using assms by (simp add: draw_countdown_box_def schedule_of_def)

lemma countdown_box_error:
  assumes "find_race_dt w (schedule_of rd) = Inl e"
  shows "draw_countdown_box w tr c rd sb = Inl e"
  using assms by (simp add: draw_countdown_box_def schedule_of_def)

text \<open>
  C6, as amended. The countdown box is omitted (nothing is drawn and the incoming Y is
  returned unchanged) when the schedule has no entry named "race" in any letter case,
  when the first such entry carries no timestamp, or when the time remaining until its
  timestamp is zero or negative; when the timestamp is present and the remaining time is
  positive the box is drawn, with the whole days and the whole remaining hours in its
  text.
\<close>

theorem countdown_box_cases:
  "(find (is_race w) (schedule_of rd) = None \<longrightarrow>
      draw_countdown_box w tr c rd sb = Inr (c, sb)) \<and>
   (\<forall>e. find (is_race w) (schedule_of rd) = Some e \<and> ev_datetime e = DtNone \<longrightarrow>
      draw_countdown_box w tr c rd sb = Inr (c, sb)) \<and>
   (\<forall>e d. find (is_race w) (schedule_of rd) = Some e \<and> timestamp w e = Some d \<and>
          remaining_micros w d \<le> 0 \<longrightarrow>
      draw_countdown_box w tr c rd sb = Inr (c, sb)) \<and>
   (\<forall>e d. find (is_race w) (schedule_of rd) = Some e \<and> timestamp w e = Some d \<and>
          0 < remaining_micros w d \<longrightarrow>
      draw_countdown_box w tr c rd sb =
        Inr (c\<lparr>ops := ops c @ countdown_ops w tr sb (remaining_micros w d)\<rparr>,
             countdown_box_top w sb + countdown_box_height w))"
proof (intro conjI allI impI)
  assume "find (is_race w) (schedule_of rd) = None"
  then show "draw_countdown_box w tr c rd sb = Inr (c, sb)"
    by (simp add: countdown_box_none find_race_dt_find)
next
  fix e assume "find (is_race w) (schedule_of rd) = Some e \<and> ev_datetime e = DtNone"
  then show "draw_countdown_box w tr c rd sb = Inr (c, sb)"
    by (simp add: countdown_box_none find_race_dt_find)
next
  fix e d
  assume a: "find (is_race w) (schedule_of rd) = Some e \<and> timestamp w e = Some d \<and>
             remaining_micros w d \<le> 0"
  then have "find_race_dt w (schedule_of rd) = Inr (Some d)"
    by (auto simp: find_race_dt_find split: dt_value.splits)
  then show "draw_countdown_box w tr c rd sb = Inr (c, sb)"
    using a by (simp add: countdown_box_drawn)
next
  fix e d
  assume a: "find (is_race w) (schedule_of rd) = Some e \<and> timestamp w e = Some d \<and>
             0 < remaining_micros w d"
  then have "find_race_dt w (schedule_of rd) = Inr (Some d)"
    by (auto simp: find_race_dt_find split: dt_value.splits)
  then show "draw_countdown_box w tr c rd sb =
        Inr (c\<lparr>ops := ops c @ countdown_ops w tr sb (remaining_micros w d)\<rparr>,
             countdown_box_top w sb + countdown_box_height w)"
    using a by (simp add: countdown_box_drawn)
qed

lemma find_race_dt_cases:
  obtains e where "find_race_dt w sched = Inl e"
  | "find_race_dt w sched = Inr None"
  | d where "find_race_dt w sched = Inr (Some d)"
  by (cases "find_race_dt w sched") (auto intro: that)

text \<open>
  C7. For the same font metrics, race data and clock, two renders with any two
  translator tables draw boxes of the same heights and return the same Y; the height of
  a drawn box is the height of the reference string \<open>TEXT_BASELINE_REF\<close> in the bold row
  font plus 12 pixels of padding, whatever the countdown text.
\<close>

theorem countdown_box_height_locale_independent:
  "new_box_heights c (draw_countdown_box w tr1 c rd sb) =
     new_box_heights c (draw_countdown_box w tr2 c rd sb) \<and>
   returned_y (draw_countdown_box w tr1 c rd sb) = returned_y (draw_countdown_box w tr2 c rd sb) \<and>
   set (new_box_heights c (draw_countdown_box w tr1 c rd sb)) \<subseteq> {countdown_box_height w}"
proof (cases rule: find_race_dt_cases[of w "schedule_of rd"])
  case (1 e)
  then show ?thesis by (simp add: countdown_box_error new_box_heights_def)
next
  case 2
  then show ?thesis by (simp add: countdown_box_none new_box_heights_def List.map_filter_simps)
next
  case (3 d)
  then show ?thesis
    by (simp add: countdown_box_drawn new_box_heights_def List.map_filter_simps countdown_ops_def Let_def)
qed

text \<open>
  What the schedule section returns: the bottom Y of the countdown box when the box is
  drawn; when the box is omitted, the Y just below the last drawn row plus 5 pixels.
\<close>

lemma schedule_section_return_value:
  "returned_y (draw_schedule_section w tr c rd) =
     (case draw_schedule_rows w tr
             (emit (Text 510 100 (tr_get tr ''weekend_schedule'' ''WEEKEND SCHEDULE'') 0 schedule_title) c)
             schedule_start_y (schedule_of rd) of
        Inl e \<Rightarrow> Inl e
      | Inr (c1, row_y) \<Rightarrow>
          (case find_race_dt w (schedule_of rd) of
             Inl e \<Rightarrow> Inl e
           | Inr None \<Rightarrow> Inr (row_y + 5)
           | Inr (Some d) \<Rightarrow>
               if remaining_micros w d \<le> 0 then Inr (row_y + 5)
               else Inr (countdown_box_top w (row_y + 5) + countdown_box_height w)))"
  by (cases rule: find_race_dt_cases[of w "schedule_of rd"])
     (auto simp: draw_schedule_section_def Let_def schedule_of_def[symmetric] right_column_x_def
        schedule_title_y_def countdown_box_error countdown_box_none countdown_box_drawn
        split: sum.splits prod.splits)

lemma future_race_found:
  "find (is_race clock_world) (schedule_of future_weekend) = Some (session ''Race'' (DtObj race_time))"
  by (simp add: schedule_of_def future_weekend_def is_race_def session_def py_lower_def is_ascii_def
      ascii_lower_def lit_simps)

lemma fixture_race_found:
  "find (is_race clock_world) (schedule_of fixture_weekend) = Some (session ''Race'' DtNone)"
  by (simp add: schedule_of_def fixture_weekend_def is_race_def session_def py_lower_def is_ascii_def
      ascii_lower_def lit_simps)

lemma future_race_dt:
  "find_race_dt clock_world (schedule_of future_weekend) = Inr (Some race_time)"
  by (simp add: find_race_dt_find future_race_found) (simp add: session_def)

lemma future_remaining: "remaining_micros clock_world race_time = 192600000000"
  by (simp add: remaining_micros_def race_time_def clock_world_def)

lemma english_countdown_text: "countdown_text Map.empty 192600000000 = lit ''IN 2 days 5 hours''"
proof -
  have d2: "str_int 2 = lit ''2''" and d5: "str_int 5 = lit ''5''"
    by (simp_all add: str_int_def digits.simps lit_simps)
  show ?thesis
    by (simp add: countdown_text_def tr_get_def d2 d5 lit_simps)
qed

lemma sample_box_height: "countdown_box_height clock_world = 32"
  by (simp add: countdown_box_height_def clock_world_def sample_world_def sample_metrics_def)

lemma english_countdown_ops:
  "countdown_ops clock_world Map.empty 173 192600000000 =
      [Rectangle 510 234 795 266 (Some 0) (Some 0) 1,
       Text 567 236 (lit ''IN 2 days 5 hours'') 1 schedule_row_bold]"
  by (simp add: countdown_ops_def english_countdown_text sample_box_height countdown_box_top_def Let_def)
     (simp add: clock_world_def sample_world_def sample_metrics_def lit_simps)

lemma future_countdown_eval:
  "draw_countdown_box clock_world Map.empty c future_weekend 173 =
     Inr (c\<lparr>ops := ops c @ [Rectangle 510 234 795 266 (Some 0) (Some 0) 1,
                             Text 567 236 (lit ''IN 2 days 5 hours'') 1 schedule_row_bold]\<rparr>, 266)"
  by (simp add: countdown_box_drawn[OF future_race_dt] future_remaining english_countdown_ops
      countdown_box_top_def sample_box_height)

theorem countdown_box_cases_witness:
  "find (is_race clock_world) (schedule_of future_weekend) = Some (session ''Race'' (DtObj race_time)) \<and>
   timestamp clock_world (session ''Race'' (DtObj race_time)) = Some race_time \<and>
   remaining_micros clock_world race_time = 192600000000 \<and>
   draw_countdown_box clock_world Map.empty new_image future_weekend 173 =
     Inr (new_image\<lparr>ops := [Rectangle 510 234 795 266 (Some 0) (Some 0) 1,
                             Text 567 236 (lit ''IN 2 days 5 hours'') 1 schedule_row_bold]\<rparr>, 266)"
proof -
  have t: "timestamp clock_world (session ''Race'' (DtObj race_time)) = Some race_time"
    by (simp add: session_def)
  have top: "countdown_box_top clock_world 173 = 234"
    by (simp add: countdown_box_top_def sample_box_height)
  show ?thesis
    using countdown_box_cases [of clock_world future_weekend Map.empty new_image 173]
      future_race_found t future_remaining english_countdown_ops top sample_box_height
    by (simp add: new_image_def)
qed

text \<open>
  C6 as stated fails: for the schedule of the repository's own test fixture, whose
  "Race" entry has a display time but no timestamp, a race entry exists and there is no
  remaining time that could be zero or negative, yet the box is omitted.
\<close>

theorem countdown_omitted_counterexample:
  "find (is_race clock_world) (schedule_of fixture_weekend) = Some (session ''Race'' DtNone) \<and>
   timestamp clock_world (session ''Race'' DtNone) = None \<and>
   draw_countdown_box clock_world Map.empty new_image fixture_weekend 229 = Inr (new_image, 229)"
proof -
  have "find_race_dt clock_world (schedule_of fixture_weekend) = Inr None"
    by (simp add: find_race_dt_find fixture_race_found) (simp add: session_def)
  then show ?thesis
    using fixture_race_found by (simp add: countdown_box_none session_def)
qed

theorem countdown_box_height_locale_independent_witness:
  "new_box_heights new_image (draw_countdown_box clock_world Map.empty new_image future_weekend 173) = [32] \<and>
   new_box_heights new_image (draw_countdown_box clock_world czech new_image future_weekend 173) = [32] \<and>
   countdown_text Map.empty 192600000000 \<noteq> countdown_text czech 192600000000"
proof -
  have a: "new_box_heights new_image (draw_countdown_box clock_world Map.empty new_image future_weekend 173) = [32]"
    by (simp add: future_countdown_eval new_box_heights_def new_image_def List.map_filter_simps)
  have b: "countdown_text Map.empty 192600000000 \<noteq> countdown_text czech 192600000000"
    by (simp add: countdown_text_def tr_get_def czech_def lit_simps)
  show ?thesis
    using countdown_box_height_locale_independent
      [of new_image clock_world Map.empty future_weekend 173 czech] a b
    by simp
qed

lemma future_rows_eval:
  "draw_schedule_rows clock_world Map.empty c schedule_start_y (schedule_of future_weekend) =
     Inr (c\<lparr>ops := ops c @ [Text 510 140 (lit ''09.03.'') 0 schedule_row,
                             Text 575 140 (lit ''Sun'') 0 schedule_row,
                             Text 620 140 (lit ''15:00'') 0 schedule_row,
                             Text 680 140 (lit ''Race'') 0 schedule_row_bold]\<rparr>, 168)"
  by (simp add: schedule_of_def future_weekend_def session_def draw_schedule_row_def Let_def
      translator_get_def clock_world_def sample_world_def sample_strftime_def lit_simps emit_def
      schedule_start_y_def schedule_row_height_def results_y_start_def schedule_date_x_def
      schedule_day_x_def schedule_time_x_def schedule_name_x_def)

text \<open>
  C4. The docstring of \<open>_draw_schedule_section\<close> reads "Returns the bottom Y position of
  the last row", and the code returns the bottom of the countdown box instead: with a
  single "Race" entry two days ahead, the Y just below the one drawn row is 168, and the
  section returns 266.
\<close>

theorem schedule_section_returns_countdown_bottom:
  "returned_y (draw_schedule_rows clock_world Map.empty
       (emit (Text 510 100 (lit ''WEEKEND SCHEDULE'') 0 schedule_title) new_image)
       schedule_start_y (schedule_of future_weekend)) = Inr 168 \<and>
   returned_y (draw_schedule_section clock_world Map.empty new_image future_weekend) = Inr 266"
proof -
  have a: "returned_y (draw_schedule_rows clock_world Map.empty
       (emit (Text 510 100 (lit ''WEEKEND SCHEDULE'') 0 schedule_title) new_image)
       schedule_start_y (schedule_of future_weekend)) = Inr 168"
    by (simp add: future_rows_eval)
  have b: "returned_y (draw_schedule_section clock_world Map.empty new_image future_weekend) = Inr 266"
    by (simp add: draw_schedule_section_def Let_def schedule_of_def[symmetric] future_rows_eval
        future_countdown_eval)
  show ?thesis using a b by simp
qed

lemma schedule_section_return_value_example:
  "returned_y (draw_schedule_section clock_world Map.empty new_image future_weekend) = Inr 266 \<and>
   countdown_box_top clock_world (168 + 5) + countdown_box_height clock_world = 266 \<and>
   returned_y (draw_schedule_section clock_world Map.empty new_image fixture_weekend) = Inr (224 + 5)"
proof -
  have top: "countdown_box_top clock_world 173 = 234"
    by (simp add: countdown_box_top_def sample_box_height)
  have fx: "find_race_dt clock_world (schedule_of fixture_weekend) = Inr None"
    by (simp add: find_race_dt_find fixture_race_found) (simp add: session_def)
  have rows: "returned_y (draw_schedule_rows clock_world Map.empty c schedule_start_y
                 (schedule_of fixture_weekend)) = Inr 224" for c
    by (simp add: schedule_of_def fixture_weekend_def session_def draw_schedule_row_def Let_def
      schedule_start_y_def schedule_row_height_def results_y_start_def)
  have r3: "returned_y (draw_schedule_section clock_world Map.empty new_image fixture_weekend) = Inr 229"
    using schedule_section_return_value [of clock_world Map.empty new_image fixture_weekend]
      rows [of "emit (Text 510 100 (tr_get Map.empty ''weekend_schedule'' ''WEEKEND SCHEDULE'') 0 schedule_title) new_image"]
    by (auto simp: fx split: sum.splits prod.splits)
  have r1: "returned_y (draw_schedule_section clock_world Map.empty new_image future_weekend) = Inr 266"
    using schedule_section_return_value [of clock_world Map.empty new_image future_weekend]
    by (simp add: future_rows_eval future_race_dt future_remaining top sample_box_height)
  show ?thesis using r1 r3 top sample_box_height by simp
qed

lemma schedule_section_unfold:
  "draw_schedule_section w tr c rd =
     (case draw_schedule_rows w tr
             (emit (Text 510 100 (tr_get tr ''weekend_schedule'' ''WEEKEND SCHEDULE'') 0 schedule_title) c)
             schedule_start_y (schedule_of rd) of
        Inl e \<Rightarrow> Inl e
      | Inr (c1, row_y) \<Rightarrow> draw_countdown_box w tr c1 rd (row_y + 5))"
  by (simp add: draw_schedule_section_def Let_def schedule_of_def right_column_x_def
      schedule_title_y_def)

text \<open>
  C5, as amended. For a schedule whose first six timestamps can be read, the section
  draws its title and then one row per entry, in input order, at the start Y of 140 and
  28 pixels apart, and stops once the next row's Y exceeds \<open>results_y_start - 80 = 305\<close>,
  which is after the sixth row: the row loop returns normally with min(6, length) rows
  and the Y below the last of them, its result is the result for the first six entries,
  and later entries get no row. The section then hands the whole race dictionary, later
  entries included, to the countdown box.
\<close>

theorem schedule_section_rows:
  assumes "list_all (\<lambda>e. parseable w (ev_datetime e)) (take 6 (schedule_of rd))"
  shows "schedule_start_y + schedule_row_height * 5 \<le> results_y_start - 80 \<and>
         results_y_start - 80 < schedule_start_y + schedule_row_height * 6 \<and>
         (\<exists>c' new.
            draw_schedule_rows w tr
              (emit (Text 510 100 (tr_get tr ''weekend_schedule'' ''WEEKEND SCHEDULE'') 0 schedule_title) c)
              schedule_start_y (schedule_of rd) =
              Inr (c', schedule_start_y + schedule_row_height * int (min 6 (length (schedule_of rd)))) \<and>
            draw_schedule_rows w tr
              (emit (Text 510 100 (tr_get tr ''weekend_schedule'' ''WEEKEND SCHEDULE'') 0 schedule_title) c)
              schedule_start_y (take 6 (schedule_of rd)) =
              Inr (c', schedule_start_y + schedule_row_height * int (min 6 (length (schedule_of rd)))) \<and>
            ops c' = ops c @ Text 510 100 (tr_get tr ''weekend_schedule'' ''WEEKEND SCHEDULE'') 0 schedule_title
                       # new \<and>
            list_all is_text new \<and>
            List.map_filter session_text new =
              map (\<lambda>(i, e). (schedule_start_y + schedule_row_height * int i, translated_name w tr e))
                (enumerate 0 (take 6 (schedule_of rd))) \<and>
            draw_schedule_section w tr c rd =
              draw_countdown_box w tr c' rd
                (schedule_start_y + schedule_row_height * int (min 6 (length (schedule_of rd))) + 5))"
proof -
  define c0 where
    "c0 = emit (Text 510 100 (tr_get tr ''weekend_schedule'' ''WEEKEND SCHEDULE'') 0 schedule_title) c"
  define y6 where
    "y6 = schedule_start_y + schedule_row_height * int (min 6 (length (schedule_of rd)))"
  have p: "\<forall>e\<in>set (take 6 (schedule_of rd)). parseable w (ev_datetime e)"
    using assms by (simp add: list_all_iff)
  from draw_schedule_rows_six[OF p, of tr c0]
  have g1: "schedule_start_y + schedule_row_height * 5 \<le> results_y_start - 80"
    and g2: "results_y_start - 80 < schedule_start_y + schedule_row_height * 6"
    and same: "draw_schedule_rows w tr c0 schedule_start_y (schedule_of rd) =
                 draw_schedule_rows w tr c0 schedule_start_y (take 6 (schedule_of rd))"
    and ex: "\<exists>c' new. draw_schedule_rows w tr c0 schedule_start_y (schedule_of rd) = Inr (c', y6) \<and>
               ops c' = ops c0 @ new \<and> list_all is_text new \<and>
               List.map_filter session_text new =
                 map (\<lambda>(i, e). (schedule_start_y + schedule_row_height * int i, translated_name w tr e))
                   (enumerate 0 (take 6 (schedule_of rd)))"
    unfolding y6_def by blast+
  from ex obtain c' new where
    r: "draw_schedule_rows w tr c0 schedule_start_y (schedule_of rd) = Inr (c', y6)"
    and o: "ops c' = ops c0 @ new"
    and t: "list_all is_text new"
    and n: "List.map_filter session_text new =
              map (\<lambda>(i, e). (schedule_start_y + schedule_row_height * int i, translated_name w tr e))
                (enumerate 0 (take 6 (schedule_of rd)))"
    by blast
  have r6: "draw_schedule_rows w tr c0 schedule_start_y (take 6 (schedule_of rd)) = Inr (c', y6)"
    using r same by simp
  have o': "ops c' = ops c @ Text 510 100 (tr_get tr ''weekend_schedule'' ''WEEKEND SCHEDULE'') 0 schedule_title
                       # new"
    using o by (simp add: c0_def)
  have sec: "draw_schedule_section w tr c rd = draw_countdown_box w tr c' rd (y6 + 5)"
    using r by (simp add: schedule_section_unfold c0_def[symmetric])
  have "\<exists>c' new. draw_schedule_rows w tr c0 schedule_start_y (schedule_of rd) = Inr (c', y6) \<and>
          draw_schedule_rows w tr c0 schedule_start_y (take 6 (schedule_of rd)) = Inr (c', y6) \<and>
          ops c' = ops c @ Text 510 100 (tr_get tr ''weekend_schedule'' ''WEEKEND SCHEDULE'') 0 schedule_title
                     # new \<and>
          list_all is_text new \<and>
          List.map_filter session_text new =
            map (\<lambda>(i, e). (schedule_start_y + schedule_row_height * int i, translated_name w tr e))
              (enumerate 0 (take 6 (schedule_of rd))) \<and>
          draw_schedule_section w tr c rd = draw_countdown_box w tr c' rd (y6 + 5)"
    using r r6 o' t n sec by blast
  then show ?thesis
    using g1 g2 unfolding c0_def y6_def by blast
qed

lemma parade_race_dt: "find_race_dt clock_world (schedule_of parade_weekend) = Inr None"
  by (simp add: schedule_of_def parade_weekend_def seven_sessions_def session_def py_lower_def
      is_ascii_def ascii_lower_def lit_simps)

theorem schedule_section_rows_witness:
  "list_all (\<lambda>e. parseable clock_world (ev_datetime e)) (take 6 (schedule_of parade_weekend)) \<and>
   length (schedule_of parade_weekend) = 7 \<and>
   \<not> parseable clock_world (ev_datetime (schedule_of parade_weekend ! 6)) \<and>
   (\<exists>c' new.
      draw_schedule_section clock_world Map.empty new_image parade_weekend = Inr (c', 313) \<and>
      ops c' = Text 510 100 (lit ''WEEKEND SCHEDULE'') 0 schedule_title # new \<and>
      List.map_filter session_text new =
        [(140, lit ''FP1''), (168, lit ''FP2''), (196, lit ''FP3''), (224, lit ''Sprint''),
         (252, lit ''Qualifying''), (280, lit ''Race'')])"
proof -
  have s: "schedule_of parade_weekend = seven_sessions"
    by (simp add: schedule_of_def parade_weekend_def)
  have p: "list_all (\<lambda>e. parseable clock_world (ev_datetime e)) (take 6 (schedule_of parade_weekend))"
    by (simp add: s seven_sessions_def session_def)
  have np: "\<not> parseable clock_world (ev_datetime (schedule_of parade_weekend ! 6))"
    by (simp add: s seven_sessions_def session_def clock_world_def sample_world_def)
  have l: "length (schedule_of parade_weekend) = 7"
    by (simp add: s seven_sessions_def)
  have names: "map (\<lambda>(i, e). (schedule_start_y + schedule_row_height * int i,
                                translated_name clock_world Map.empty e))
                 (enumerate 0 (take 6 (schedule_of parade_weekend))) =
        [(140, lit ''FP1''), (168, lit ''FP2''), (196, lit ''FP3''), (224, lit ''Sprint''),
         (252, lit ''Qualifying''), (280, lit ''Race'')]"
    by (simp add: s seven_sessions_def session_def translated_name_def translator_get_def
        schedule_start_y_def schedule_row_height_def)
  have title: "tr_get Map.empty ''weekend_schedule'' ''WEEKEND SCHEDULE'' = lit ''WEEKEND SCHEDULE''"
    by (simp add: tr_get_def)
  have y: "schedule_start_y + schedule_row_height * int (min 6 (length (schedule_of parade_weekend))) + 5 = 313"
    by (simp add: l schedule_start_y_def schedule_row_height_def)
  from schedule_section_rows [OF p, of Map.empty new_image]
  obtain c' new where r:
    "ops c' = ops new_image @ Text 510 100 (tr_get Map.empty ''weekend_schedule'' ''WEEKEND SCHEDULE'') 0
                 schedule_title # new"
    "List.map_filter session_text new =
       map (\<lambda>(i, e). (schedule_start_y + schedule_row_height * int i,
                       translated_name clock_world Map.empty e))
         (enumerate 0 (take 6 (schedule_of parade_weekend)))"
    "draw_schedule_section clock_world Map.empty new_image parade_weekend =
       draw_countdown_box clock_world Map.empty c' parade_weekend
         (schedule_start_y + schedule_row_height * int (min 6 (length (schedule_of parade_weekend))) + 5)"
    by blast
  have sec: "draw_schedule_section clock_world Map.empty new_image parade_weekend = Inr (c', 313)"
    unfolding r(3) y by (rule countdown_box_none[OF parade_race_dt])
  have o: "ops c' = Text 510 100 (lit ''WEEKEND SCHEDULE'') 0 schedule_title # new"
    using r(1) by (simp add: new_image_def title)
  have n: "List.map_filter session_text new =
        [(140, lit ''FP1''), (168, lit ''FP2''), (196, lit ''FP3''), (224, lit ''Sprint''),
         (252, lit ''Qualifying''), (280, lit ''Race'')]"
    using r(2) names by simp
  have "\<exists>c' new.
      draw_schedule_section clock_world Map.empty new_image parade_weekend = Inr (c', 313) \<and>
      ops c' = Text 510 100 (lit ''WEEKEND SCHEDULE'') 0 schedule_title # new \<and>
      List.map_filter session_text new =
        [(140, lit ''FP1''), (168, lit ''FP2''), (196, lit ''FP3''), (224, lit ''Sprint''),
         (252, lit ''Qualifying''), (280, lit ''Race'')]"
    using sec o n by blast
  then show ?thesis using p l np by blast
qed

lemma long_race_dt: "find_race_dt clock_world (schedule_of long_weekend) = Inr (Some race_time)"
  by (simp add: schedule_of_def long_weekend_def session_def py_lower_def
      is_ascii_def ascii_lower_def lit_simps)

lemma long_cut_race_dt: "find_race_dt clock_world (schedule_of long_weekend_cut) = Inr None"
  by (simp add: schedule_of_def long_weekend_cut_def session_def py_lower_def
      is_ascii_def ascii_lower_def lit_simps)

text \<open>
  C5 as stated fails twice. An entry beyond the guard is not simply dropped: with six
  sessions followed by a "Race" entry two days ahead, the seventh entry gets no row but
  the section draws a countdown box for it and returns 336, where the same schedule cut
  to its first six entries returns 313. And an error is raised for a schedule whose entry
  carries a timestamp string that does not parse.
\<close>

theorem schedule_beyond_guard_counterexample:
  "take 6 (schedule_of long_weekend) = schedule_of long_weekend_cut \<and>
   length (schedule_of long_weekend) = 7 \<and>
   returned_y (draw_schedule_section clock_world Map.empty new_image long_weekend) = Inr 336 \<and>
   returned_y (draw_schedule_section clock_world Map.empty new_image long_weekend_cut) = Inr 313 \<and>
   new_box_heights new_image (draw_schedule_section clock_world Map.empty new_image long_weekend) = [32] \<and>
   new_box_heights new_image (draw_schedule_section clock_world Map.empty new_image long_weekend_cut) = [] \<and>
   draw_schedule_section clock_world Map.empty new_image bad_weekend = Inl ValueError"
proof -
  have a: "take 6 (schedule_of long_weekend) = schedule_of long_weekend_cut"
    by (simp add: schedule_of_def long_weekend_def long_weekend_cut_def)
  have l: "length (schedule_of long_weekend) = 7"
    by (simp add: schedule_of_def long_weekend_def)
  have top: "countdown_box_top clock_world 313 = 304"
    by (simp add: countdown_box_top_def sample_box_height)
  have pl: "list_all (\<lambda>e. parseable clock_world (ev_datetime e)) (take 6 (schedule_of long_weekend))"
    by (simp add: schedule_of_def long_weekend_def session_def)
  have pc: "list_all (\<lambda>e. parseable clock_world (ev_datetime e)) (take 6 (schedule_of long_weekend_cut))"
    by (simp add: schedule_of_def long_weekend_cut_def session_def)
  have lc: "length (schedule_of long_weekend_cut) = 6"
    by (simp add: schedule_of_def long_weekend_cut_def)
  have y7: "schedule_start_y + schedule_row_height * int (min 6 (length (schedule_of long_weekend))) + 5 = 313"
    by (simp add: l schedule_start_y_def schedule_row_height_def)
  have y6: "schedule_start_y + schedule_row_height * int (min 6 (length (schedule_of long_weekend_cut))) + 5 = 313"
    by (simp add: lc schedule_start_y_def schedule_row_height_def)
  define title where "title = Text 510 100 (tr_get Map.empty ''weekend_schedule'' ''WEEKEND SCHEDULE'') 0 schedule_title"
  have pl': "\<forall>e\<in>set (take 6 (schedule_of long_weekend)). parseable clock_world (ev_datetime e)"
    using pl by (simp add: list_all_iff)
  have pc': "\<forall>e\<in>set (take 6 (schedule_of long_weekend_cut)). parseable clock_world (ev_datetime e)"
    using pc by (simp add: list_all_iff)
  from draw_schedule_rows_six[OF pl', of Map.empty "emit title new_image"] obtain c7 new7 where
    r7: "draw_schedule_rows clock_world Map.empty (emit title new_image) schedule_start_y (schedule_of long_weekend) =
           Inr (c7, schedule_start_y + schedule_row_height * int (min 6 (length (schedule_of long_weekend))))"
        "ops c7 = ops (emit title new_image) @ new7" "list_all is_text new7"
    by blast
  from draw_schedule_rows_six[OF pc', of Map.empty "emit title new_image"] obtain c6 new6 where
    r6: "draw_schedule_rows clock_world Map.empty (emit title new_image) schedule_start_y (schedule_of long_weekend_cut) =
           Inr (c6, schedule_start_y + schedule_row_height * int (min 6 (length (schedule_of long_weekend_cut))))"
        "ops c6 = ops (emit title new_image) @ new6" "list_all is_text new6"
    by blast
  have t7: "List.map_filter rect_height new7 = []"
    using r7(3) by (induction new7) (auto simp: List.map_filter_simps elim: is_text.elims)
  have t6: "List.map_filter rect_height new6 = []"
    using r6(3) by (induction new6) (auto simp: List.map_filter_simps elim: is_text.elims)
  have s7: "draw_schedule_section clock_world Map.empty new_image long_weekend =
              Inr (c7\<lparr>ops := ops c7 @ countdown_ops clock_world Map.empty 313 192600000000\<rparr>, 336)"
    using r7(1) y7
    by (simp add: schedule_section_unfold title_def[symmetric] countdown_box_drawn[OF long_race_dt]
        future_remaining top sample_box_height)
  have s6: "draw_schedule_section clock_world Map.empty new_image long_weekend_cut = Inr (c6, 313)"
    using r6(1) y6
    by (simp add: schedule_section_unfold title_def[symmetric] countdown_box_none[OF long_cut_race_dt])
  have b7: "new_box_heights new_image (draw_schedule_section clock_world Map.empty new_image long_weekend) = [32]"
    unfolding s7
    by (simp add: new_box_heights_def r7(2) new_image_def map_filter_append t7 countdown_ops_def Let_def
        List.map_filter_simps sample_box_height title_def)
  have b6: "new_box_heights new_image (draw_schedule_section clock_world Map.empty new_image long_weekend_cut) = []"
    unfolding s6
    by (simp add: new_box_heights_def r6(2) new_image_def map_filter_append t6
        List.map_filter_simps title_def)
  have bad: "draw_schedule_section clock_world Map.empty new_image bad_weekend = Inl ValueError"
    by (simp add: schedule_section_unfold schedule_of_def bad_weekend_def session_def
        draw_schedule_row_def Let_def clock_world_def sample_world_def)
  show ?thesis
    using a l b7 b6 bad by (simp add: s7 s6)
qed

section \<open>Properties of the encoder and the two entry points\<close>

lemma length_row_bytes: "length (row_bytes px width) = bmp_stride width 1"
  by (simp add: row_bytes_def)

lemma length_concat_uniform:
  "(\<And>x. x \<in> set xss \<Longrightarrow> length x = n) \<Longrightarrow> length (concat xss) = n * length xss"
  by (induction xss) simp_all

lemma stride_800: "bmp_stride 800 1 = 100" "bmp_stride 800 (Suc 0) = 100"
  by (simp_all add: bmp_stride_def)

lemma length_bmp_data: "length (bmp_data 800 480 px) = 48000"
proof -
  have "length (bmp_data 800 480 px) =
          100 * length (map (\<lambda>r. row_bytes (\<lambda>x. px x (480 - 1 - r)) 800) [0..<480])"
    unfolding bmp_data_def
    by (rule length_concat_uniform) (auto simp: length_row_bytes stride_800)
  then show ?thesis by simp
qed

lemma bmp_encode_800_480: "bmp_encode 800 480 px = header_800_480 @ bmp_data 800 480 px"
  by (simp add: bmp_encode_def bmp_data_def header_800_480_def stride_800 o32_def o16_def o8_def Let_def)

lemma bmp_decode_800_480:
  assumes "length data = 48000"
  shows "bmp_decode (header_800_480 @ data) = Some (800, 480, 1)"
  using assms
  by (simp add: bmp_decode_def header_800_480_def u32_at_def u16_at_def Let_def stride_800 bmp_stride_def)

lemma bits_val_snoc: "bits_val (bs @ [b]) = 2 * bits_val bs + (if b then 1 else 0)"
  by (simp add: bits_val_def)

lemma bits_val_Nil: "bits_val [] = 0"
  by (simp add: bits_val_def)

lemma bits_val_bound: "bits_val bs < 2 ^ length bs"
  by (induction bs rule: rev_induct) (simp_all add: bits_val_snoc bits_val_Nil)

lemma bits_val_bit:
  "i < length bs \<Longrightarrow> odd (bits_val bs div 2 ^ (length bs - 1 - i)) = bs ! i"
proof (induction bs rule: rev_induct)
  case Nil
  then show ?case by simp
next
  case (snoc b bs)
  show ?case
  proof (cases "i = length bs")
    case True
    then show ?thesis by (simp add: bits_val_snoc)
  next
    case False
    with snoc.prems have lt: "i < length bs" by simp
    have e: "length (bs @ [b]) - 1 - i = Suc (length bs - 1 - i)"
      using lt by simp
    have h: "bits_val (bs @ [b]) div 2 = bits_val bs"
      by (simp add: bits_val_snoc)
    have "bits_val (bs @ [b]) div 2 ^ Suc (length bs - 1 - i) =
          (bits_val (bs @ [b]) div 2) div 2 ^ (length bs - 1 - i)"
      by (simp add: div_mult2_eq)
    then have step: "bits_val (bs @ [b]) div 2 ^ (length (bs @ [b]) - 1 - i) =
                     bits_val bs div 2 ^ (length bs - 1 - i)"
      unfolding e h .
    have n: "(bs @ [b]) ! i = bs ! i"
      using lt by (simp add: nth_append)
    show ?thesis
      unfolding step n using snoc.IH[OF lt] .
  qed
qed

lemma pack_bits_bit:
  assumes "length bs = 8" "i < 8"
  shows "odd (unat (pack_bits bs) div 2 ^ (7 - i)) = bs ! i"
proof -
  have "bits_val bs < 256" using bits_val_bound[of bs] assms(1) by simp
  then have "unat (pack_bits bs) = bits_val bs"
    by (simp add: pack_bits_def o8_def bits_val_def[symmetric] unat_of_nat)
  then show ?thesis
    using bits_val_bit[of i bs] assms by simp
qed

lemma nth_concat_uniform:
  "(\<And>xs. xs \<in> set xss \<Longrightarrow> length xs = n) \<Longrightarrow> r < length xss \<Longrightarrow> k < n \<Longrightarrow>
   concat xss ! (r * n + k) = xss ! r ! k"
proof (induction xss arbitrary: r)
  case Nil
  then show ?case by simp
next
  case (Cons xs xss)
  have lx: "length xs = n" using Cons.prems(1) by simp
  show ?case
  proof (cases r)
    case 0
    then show ?thesis using Cons.prems(3) lx by (simp add: nth_append)
  next
    case (Suc r')
    have "concat xss ! (r' * n + k) = xss ! r' ! k"
      using Cons.IH[of r'] Cons.prems Suc by simp
    then show ?thesis
      using Suc lx by (simp add: nth_append)
  qed
qed

lemma bmp_data_nth:
  assumes "r < 480" "k < 100"
  shows "bmp_data 800 480 px ! (r * 100 + k) =
           pack_bits (map (\<lambda>i. 8 * k + i < 800 \<and> px (8 * k + i) (479 - r)) [0..<8])"
proof -
  let ?rows = "map (\<lambda>r. row_bytes (\<lambda>x. px x (480 - 1 - r)) 800) [0..<480]"
  have "concat ?rows ! (r * 100 + k) = ?rows ! r ! k"
    by (rule nth_concat_uniform) (use assms in \<open>auto simp: length_row_bytes stride_800\<close>)
  also have "\<dots> = row_bytes (\<lambda>x. px x (479 - r)) 800 ! k"
    using assms by simp
  also have "\<dots> = pack_bits (map (\<lambda>i. 8 * k + i < 800 \<and> px (8 * k + i) (479 - r)) [0..<8])"
    using assms by (simp add: row_bytes_def stride_800 del: upt_Suc)
  finally show ?thesis by (simp add: bmp_data_def)
qed

lemma bmp_pixel_800_480:
  assumes "x < 800" "y < 480"
  shows "bmp_pixel (header_800_480 @ bmp_data 800 480 px) x y = px x y"
proof -
  let ?bs = "header_800_480 @ bmp_data 800 480 px"
  have h: "u32_at ?bs 10 = 62" "u32_at ?bs 18 = 800" "u32_at ?bs 22 = 480"
    by (simp_all add: header_800_480_def u32_at_def)
  have lh: "length header_800_480 = 62" by (simp add: header_800_480_def)
  have k: "x div 8 < 100" using assms(1) by simp
  have r: "479 - y < 480" by simp
  have idx: "?bs ! (62 + (480 - 1 - y) * bmp_stride 800 1 + x div 8) =
             bmp_data 800 480 px ! ((479 - y) * 100 + x div 8)"
    by (simp add: nth_append lh stride_800)
  have b: "bmp_data 800 480 px ! ((479 - y) * 100 + x div 8) =
           pack_bits (map (\<lambda>i. 8 * (x div 8) + i < 800 \<and> px (8 * (x div 8) + i) (479 - (479 - y))) [0..<8])"
    by (rule bmp_data_nth[OF r k])
  have yy: "479 - (479 - y) = y" using assms(2) by simp
  have m: "x mod 8 < 8" by simp
  have xx: "8 * (x div 8) + x mod 8 = x" by simp
  have "bmp_pixel ?bs x y =
        odd (unat (pack_bits (map (\<lambda>i. 8 * (x div 8) + i < 800 \<and> px (8 * (x div 8) + i) y) [0..<8]))
             div 2 ^ (7 - x mod 8))"
    unfolding bmp_pixel_def h Let_def idx b yy ..
  also have "\<dots> = (map (\<lambda>i. 8 * (x div 8) + i < 800 \<and> px (8 * (x div 8) + i) y) [0..<8]) ! (x mod 8)"
    by (rule pack_bits_bit) (simp_all del: upt_Suc)
  also have "\<dots> = (8 * (x div 8) + x mod 8 < 800 \<and> px (8 * (x div 8) + x mod 8) y)"
    using m by (simp del: upt_Suc)
  finally show ?thesis using assms(1) by (simp only: xx) simp
qed

lemma frame_emit [simp]: "frame (emit op c) = frame c"
  by (simp add: frame_def emit_def)

lemma frame_logo [simp]: "frame (draw_f1_logo w c width height) = frame c"
  by (simp add: draw_f1_logo_def Let_def split: option.splits)

lemma frame_header [simp]: "frame (draw_header w c rd) = frame c"
  by (simp add: draw_header_def Let_def)

lemma frame_placeholder [simp]: "frame (draw_track_placeholder c x y width height) = frame c"
  by (simp add: draw_track_placeholder_def)

lemma frame_track_section:
  assumes "draw_track_section w c rd = Inr c'"
  shows "frame c' = frame c"
proof (cases "load_track_image w rd")
  case None
  with assms show ?thesis
    by (auto simp: draw_track_section_def Let_def)
next
  case (Some img)
  with assms show ?thesis
    by (auto simp: draw_track_section_def Let_def split: prod.splits sum.splits if_splits)
qed

lemma frame_update_ops [simp]: "frame (c\<lparr>ops := xs\<rparr>) = frame c"
  by (simp add: frame_def)

lemma frame_schedule_row:
  assumes "draw_schedule_row w tr c y e = Inr c'"
  shows "frame c' = frame c"
proof (cases "ev_datetime e")
  case DtNone
  with assms show ?thesis
    by (simp add: draw_schedule_row_def Let_def) (metis frame_emit)
next
  case (DtStr s)
  with assms show ?thesis
    by (cases "fromisoformat w s") (simp_all add: draw_schedule_row_def Let_def, metis frame_emit)
next
  case (DtObj d)
  with assms show ?thesis
    by (simp add: draw_schedule_row_def Let_def) (metis frame_emit)
qed

lemma frame_schedule_rows:
  "draw_schedule_rows w tr c y sched = Inr (c', y') \<Longrightarrow> frame c' = frame c"
proof (induction sched arbitrary: c y)
  case Nil
  then show ?case by simp
next
  case (Cons e es)
  then show ?case
    by (auto simp: Let_def split: sum.splits if_splits dest: frame_schedule_row)
qed

lemma frame_countdown:
  assumes "draw_countdown_box w tr c rd sb = Inr (c', y')"
  shows "frame c' = frame c"
proof (cases rule: find_race_dt_cases[of w "schedule_of rd"])
  case (1 e)
  with assms show ?thesis by (simp add: countdown_box_error)
next
  case 2
  with assms show ?thesis by (simp add: countdown_box_none)
next
  case (3 d)
  with assms show ?thesis
    by (cases "remaining_micros w d \<le> 0") (auto simp: countdown_box_drawn)
qed

lemma frame_schedule_section:
  assumes "draw_schedule_section w tr c rd = Inr (c', y')"
  shows "frame c' = frame c"
proof -
  from assms obtain c1 y1 where
    r: "draw_schedule_rows w tr
          (emit (Text 510 100 (tr_get tr ''weekend_schedule'' ''WEEKEND SCHEDULE'') 0 schedule_title) c)
          schedule_start_y (schedule_of rd) = Inr (c1, y1)"
    and cd: "draw_countdown_box w tr c1 rd (y1 + 5) = Inr (c', y')"
    by (auto simp: schedule_section_unfold split: sum.splits)
  show ?thesis
    using frame_countdown[OF cd] frame_schedule_rows[OF r] by simp
qed

lemma frame_stats_rows [simp]:
  "frame (draw_stats_rows w c block_x text_x m y rows) = frame c"
  by (induction rows arbitrary: c y) (auto simp: Let_def)

lemma frame_circuit_stats:
  assumes "draw_circuit_stats w tr c rd sb = Inr c'"
  shows "frame c' = frame c"
  using assms
  by (auto simp: draw_circuit_stats_def Let_def split: option.splits sum.splits if_splits)

lemma frame_new_track [simp]: "frame (draw_new_track_message w tr c y) = frame c"
  by (simp add: draw_new_track_message_def Let_def)

lemma frame_results_header:
  assumes "draw_results_header w c y season_arg cn = Inr (c', vt)"
  shows "frame c' = frame c"
  using assms
  by (cases "load_flag w (iso_code_of w cn)")
     (auto simp: draw_results_header_def Let_def split: sum.splits if_splits)

lemma frame_result_rows:
  "draw_result_rows w c x tx y0 isq i items = Inr c' \<Longrightarrow> frame c' = frame c"
proof (induction items arbitrary: c i)
  case Nil
  then show ?case by simp
next
  case (Cons e es)
  then show ?case
    by (auto simp: Let_def split: sum.splits if_splits)
qed

lemma frame_results_column:
  "draw_results_column w c x vt title results isq = Inr c' \<Longrightarrow> frame c' = frame c"
  by (auto simp: draw_results_column_def Let_def dest: frame_result_rows)

lemma frame_results_section:
  assumes "draw_results_section w tr c rd hist = Inr c'"
  shows "frame c' = frame c"
proof (cases "hist = None \<or> (\<exists>h. hist = Some h \<and> is_new_track h)")
  case True
  with assms show ?thesis
    by (auto simp: draw_results_section_def Let_def)
next
  case False
  then obtain h where h: "hist = Some h" "\<not> is_new_track h" by auto
  define c0 where "c0 = emit (Line 0 results_y_start DISPLAY_WIDTH results_y_start 0 separator_width) c"
  define season_arg where "season_arg = (case season h of None \<Rightarrow> StrVal []
                                  | Some n \<Rightarrow> if n = 0 then StrVal [] else IntVal n)"
  from assms h obtain c1 vt c2 where
    hd: "draw_results_header w c0 results_y_start season_arg (circuit_country rd) = Inr (c1, vt)"
    and q: "draw_results_column w c1 results_col1_x vt (tr_get tr ''qualifying'' ''QUALIFYING'')
              (map QualifyingItem (qualifying_results h)) True = Inr c2"
    and r: "draw_results_column w c2 results_col2_x vt (tr_get tr ''race'' ''RACE'')
              (map RaceItem (race_results h)) False = Inr c'"
    by (auto simp: draw_results_section_def Let_def c0_def[symmetric] season_arg_def[symmetric]
          split: sum.splits)
  show ?thesis
    using frame_results_column[OF r] frame_results_column[OF q] frame_results_header[OF hd]
    by (simp add: c0_def)
qed

lemma to_bmp_800_480:
  assumes "frame c = frame new_image"
  shows "to_bmp w c = header_800_480 @ bmp_data 800 480 (rasterize w c)"
proof -
  have "cv_width c = 800" "cv_height c = 480"
    using assms by (simp_all add: frame_def new_image_def DISPLAY_WIDTH_def DISPLAY_HEIGHT_def)
  then show ?thesis
    by (simp add: to_bmp_def bmp_encode_800_480)
qed

lemma to_bmp_properties:
  assumes "frame c = frame new_image"
  shows "to_bmp w c \<noteq> [] \<and> length (to_bmp w c) = 48062 \<and>
         bmp_decode (to_bmp w c) = Some (800, 480, 1) \<and>
         (\<forall>x<800. \<forall>y<480. bmp_pixel (to_bmp w c) x y = rasterize w c x y)"
  unfolding to_bmp_800_480[OF assms]
  by (simp add: bmp_decode_800_480 length_bmp_data bmp_pixel_800_480)
     (simp add: header_800_480_def)

text \<open>
  C8. For every error message, the empty one and those longer than 60 characters
  included, \<open>render_error\<close> returns a non-empty byte sequence that decodes as an 800 by
  480 bitmap of 1 bit per pixel whose pixels are those of the drawn canvas; the canvas
  carries the translated label and the first 60 characters of the message, and the
  bytes are those for the message cut to 60 characters.
\<close>

theorem render_error_bitmap:
  "render_error w tr error_message \<noteq> [] \<and>
   bmp_decode (render_error w tr error_message) = Some (800, 480, 1) \<and>
   ops (render_error_image tr error_message) =
     [Text 15 15 (tr_get tr ''error'' ''Error'' @ lit '':'') 0 schedule_title,
      Text 15 65 (take 60 error_message) 0 schedule_row] \<and>
   render_error w tr error_message = render_error w tr (take 60 error_message) \<and>
   (\<forall>x<800. \<forall>y<480. bmp_pixel (render_error w tr error_message) x y =
                        rasterize w (render_error_image tr error_message) x y)"
proof -
  have f: "frame (render_error_image tr error_message) = frame new_image"
    by (simp add: render_error_image_def Let_def)
  have o: "ops (render_error_image tr error_message) =
     [Text 15 15 (tr_get tr ''error'' ''Error'' @ lit '':'') 0 schedule_title,
      Text 15 65 (take 60 error_message) 0 schedule_row]"
    by (simp add: render_error_image_def Let_def padding_def new_image_def)
  have e: "render_error_image tr error_message = render_error_image tr (take 60 error_message)"
    by (simp add: render_error_image_def Let_def)
  show ?thesis
    using to_bmp_properties[OF f, of w] o e
    by (simp add: render_error_def)
qed

text \<open>
  Whenever \<open>render_calendar\<close> returns, what it returns is a non-empty byte sequence that
  decodes as an 800 by 480 bitmap of 1 bit per pixel whose pixels are those of the drawn
  canvas: no section changes the mode or the size of the image.
\<close>

lemma render_calendar_result:
  assumes "render_calendar w tr rd hist = Inr bs"
  shows "\<exists>c'. bs = to_bmp w c' \<and> frame c' = (Mode1, 800, 480) \<and> bs \<noteq> [] \<and>
           length bs = 48062 \<and> bmp_decode bs = Some (800, 480, 1) \<and>
           (\<forall>x<800. \<forall>y<480. bmp_pixel bs x y = rasterize w c' x y)"
proof -
  define c0 where "c0 = draw_header w new_image rd"
  from assms obtain c1 c2 sb c3 c4 where
    t: "draw_track_section w c0 rd = Inr c1"
    and s: "draw_schedule_section w tr c1 rd = Inr (c2, sb)"
    and st: "draw_circuit_stats w tr c2 rd sb = Inr c3"
    and r: "draw_results_section w tr c3 rd hist = Inr c4"
    and b: "bs = to_bmp w c4"
    by (auto simp: render_calendar_def Let_def c0_def[symmetric] split: sum.splits)
  have f: "frame c4 = frame new_image"
    using frame_track_section[OF t] frame_schedule_section[OF s] frame_circuit_stats[OF st]
      frame_results_section[OF r]
    by (simp add: c0_def)
  have fr: "frame c4 = (Mode1, 800, 480)"
    using f by (simp add: frame_def new_image_def DISPLAY_WIDTH_def DISPLAY_HEIGHT_def)
  show ?thesis
    using b fr to_bmp_properties[OF f, of w] by blast
qed




theorem render_error_bitmap_witness:
  "bmp_decode (render_error sample_world Map.empty []) = Some (800, 480, 1) \<and>
   ops (render_error_image Map.empty (replicate 70 120)) =
     [Text 15 15 (lit ''Error:'') 0 schedule_title, Text 15 65 (replicate 60 120) 0 schedule_row] \<and>
   bmp_pixel (render_error sample_world Map.empty (replicate 70 120)) 799 479"
proof -
  have r: "rasterize sample_world c' 799 479" for c'
    by (simp add: sample_world_def)
  have e: "tr_get Map.empty ''error'' ''Error'' @ lit '':'' = lit ''Error:''"
    by (simp add: tr_get_def lit_simps)
  have a: "bmp_decode (render_error sample_world Map.empty []) = Some (800, 480, 1)"
    using render_error_bitmap [of sample_world Map.empty "[]"] by simp
  have b: "ops (render_error_image Map.empty (replicate 70 120)) =
     [Text 15 15 (lit ''Error:'') 0 schedule_title, Text 15 65 (replicate 60 120) 0 schedule_row]"
    using render_error_bitmap [of sample_world Map.empty "replicate 70 120"] e by simp
  have "\<forall>x<800. \<forall>y<480.
          bmp_pixel (render_error sample_world Map.empty (replicate 70 120)) x y =
          rasterize sample_world (render_error_image Map.empty (replicate 70 120)) x y"
    using render_error_bitmap [of sample_world Map.empty "replicate 70 120"] by blast
  then have c: "bmp_pixel (render_error sample_world Map.empty (replicate 70 120)) 799 479"
    using r by simp
  show ?thesis using a b c by blast
qed

end
